theory Spec2Isabelle
  imports Complex_Main "HOL-Library.Word" "HOL-Library.Sublist"
begin

section \<open>JavaScript values\<close>

text \<open>
  A JavaScript string is a sequence of 16-bit code units.  Literals of the source are
  written \<open>js ''...''\<close>.
\<close>

type_synonym jschar = "16 word"
type_synonym jsstring = "jschar list"

definition js :: "string \<Rightarrow> jsstring" where
  "js = map of_char"

definition LF :: jschar where "LF = 0x0A"
definition apostrophe :: jschar where "apostrophe = 0x27"
definition backslash :: jschar where "backslash = 0x5C"

text \<open>
  Values that arrive as JSON (tool arguments, the provisioning payload, results of page
  scripts), together with \<open>undefined\<close>, which a missing property reads as.  An object is
  its table of own properties.
\<close>

datatype json =
    JUndefined
  | JNull
  | JBool bool
  | JNum rat
  | JStr jsstring
  | JArr "json list"
  | JObj "(jsstring \<times> json) list"

text \<open>
  A thrown value.  The collaborators reject with instances of \<open>Error\<close>; the driver
  also passes on, as it is, a primitive that a page script threw.  So a thrown value is
  an \<open>Error\<close> with its message, \<open>undefined\<close>, \<open>null\<close>, or another primitive
  (a boolean, number or string), kept as what \<open>String(error)\<close> renders.
\<close>

datatype thrown = ErrorObj jsstring | ThrownUndefined | ThrownNull | NonError jsstring

text \<open>\<open>error instanceof Error ? error.message : String(error)\<close>\<close>

definition errorMsg :: "thrown \<Rightarrow> jsstring" where
  "errorMsg error =
     (case error of
        ErrorObj m \<Rightarrow> m
      | ThrownUndefined \<Rightarrow> js ''undefined''
      | ThrownNull \<Rightarrow> js ''null''
      | NonError s \<Rightarrow> s)"

text \<open>The engine's error for a property read on \<open>null\<close> or \<open>undefined\<close>.\<close>

definition cannot_read :: "string \<Rightarrow> string \<Rightarrow> thrown" where
  "cannot_read base k =
     ErrorObj (js ''Cannot read properties of '' @ js base @ js '' (reading '' @
               [apostrophe] @ js k @ [apostrophe] @ js '')'')"

text \<open>
  \<open>`${(error as Error).message}`\<close>: the read of \<open>message\<close> throws on \<open>undefined\<close>
  and \<open>null\<close>, and gives \<open>undefined\<close> on any other primitive.
\<close>

definition message :: "thrown \<Rightarrow> thrown + jsstring" where
  "message error =
     (case error of
        ErrorObj m \<Rightarrow> Inr m
      | ThrownUndefined \<Rightarrow> Inl (cannot_read ''undefined'' ''message'')
      | ThrownNull \<Rightarrow> Inl (cannot_read ''null'' ''message'')
      | NonError s \<Rightarrow> Inr (js ''undefined''))"

definition get_prop :: "json \<Rightarrow> string \<Rightarrow> thrown + json" where
  "get_prop v k =
     (case v of
        JUndefined \<Rightarrow> Inl (cannot_read ''undefined'' k)
      | JNull \<Rightarrow> Inl (cannot_read ''null'' k)
      | JObj kvs \<Rightarrow> Inr (case map_of kvs (js k) of None \<Rightarrow> JUndefined | Some x \<Rightarrow> x)
      | _ \<Rightarrow> Inr JUndefined)"

definition truthy :: "json \<Rightarrow> bool" where
  "truthy v =
     (case v of
        JUndefined \<Rightarrow> False
      | JNull \<Rightarrow> False
      | JBool b \<Rightarrow> b
      | JNum r \<Rightarrow> r \<noteq> 0
      | JStr s \<Rightarrow> s \<noteq> []
      | _ \<Rightarrow> True)"

text \<open>Decimal rendering of a non-negative integer, as a template literal prints it.\<close>

fun show_nat :: "nat \<Rightarrow> string" where
  "show_nat n =
     (if n < 10 then [char_of (48 + n)]
      else show_nat (n div 10) @ [char_of (48 + n mod 10)])"

declare show_nat.simps [simp del]

text \<open>
  \<open>Map\<close> keeps its entries in insertion order; \<open>set\<close> on a key that is present replaces
  the value in place.  Keys are compared by SameValueZero: primitives by value, objects
  and arrays by identity, and every object or array that reaches a \<open>Map\<close> here is a
  freshly parsed one, equal to none stored before.
\<close>

definition same_value_zero :: "json \<Rightarrow> json \<Rightarrow> bool" where
  "same_value_zero a b =
     (case a of JArr _ \<Rightarrow> False | JObj _ \<Rightarrow> False | _ \<Rightarrow> a = b)"

fun Map_set :: "('k \<Rightarrow> 'k \<Rightarrow> bool) \<Rightarrow> ('k \<times> 'v) list \<Rightarrow> 'k \<Rightarrow> 'v \<Rightarrow> ('k \<times> 'v) list" where
  "Map_set eq [] k v = [(k, v)]"
| "Map_set eq ((k', v') # m) k v =
     (if eq k' k then (k', v) # m else (k', v') # Map_set eq m k v)"

fun Map_get :: "('k \<Rightarrow> 'k \<Rightarrow> bool) \<Rightarrow> ('k \<times> 'v) list \<Rightarrow> 'k \<Rightarrow> 'v option" where
  "Map_get eq [] k = None"
| "Map_get eq ((k', v') # m) k = (if eq k' k then Some v' else Map_get eq m k)"

section \<open>External collaborators\<close>

type_synonym browser_handle = nat
type_synonym page_handle = nat

record response =
  status :: nat
  body_json :: "thrown + json"

text \<open>\<open>response.ok\<close>: the status is in the range 200 to 299.\<close>

definition ok :: "response \<Rightarrow> bool" where
  "ok r = (200 \<le> status r \<and> status r \<le> 299)"

text \<open>
  What the process environment, the provisioning endpoint, the browser driver and the
  engine's own coercions answer during one request.  Each awaited call either returns
  (\<open>Inr\<close>) or rejects (\<open>Inl\<close>).  \<open>ToString\<close> is the engine's string coercion of a number,
  array or object inside a template literal, which throws for an object whose
  \<open>toString\<close> and \<open>valueOf\<close> give no primitive.
\<close>

record world =
  env_SESSION_ID :: "jsstring option"
  env_API_KEY :: "jsstring option"
  fetch :: "jsstring \<Rightarrow> thrown + response"
  puppeteer_connect :: "json \<Rightarrow> thrown + browser_handle"
  browser_pages :: "browser_handle \<Rightarrow> thrown + page_handle list"
  page_title :: "page_handle \<Rightarrow> thrown + unit"
  page_goto :: "page_handle \<Rightarrow> json \<Rightarrow> thrown + unit"
  page_evaluate :: "page_handle \<Rightarrow> json \<Rightarrow> thrown + json"
  page_url :: "page_handle \<Rightarrow> thrown + jsstring"
  page_screenshot :: "page_handle \<Rightarrow> thrown + jsstring"
  page_click :: "page_handle \<Rightarrow> json \<Rightarrow> thrown + unit"
  page_waitForSelector :: "page_handle \<Rightarrow> json \<Rightarrow> thrown + unit"
  page_type :: "page_handle \<Rightarrow> json \<Rightarrow> json \<Rightarrow> thrown + unit"
  page_innerText :: "page_handle \<Rightarrow> thrown + jsstring"
  ToString :: "json \<Rightarrow> thrown + jsstring"
  JSON_stringify :: "json \<Rightarrow> jsstring"

text \<open>\<open>`${v}`\<close>\<close>

definition template :: "world \<Rightarrow> json \<Rightarrow> thrown + jsstring" where
  "template w v =
     (case v of
        JUndefined \<Rightarrow> Inr (js ''undefined'')
      | JNull \<Rightarrow> Inr (js ''null'')
      | JBool b \<Rightarrow> Inr (if b then js ''true'' else js ''false'')
      | JStr s \<Rightarrow> Inr s
      | _ \<Rightarrow> ToString w v)"

text \<open>\<open>`${v}`\<close> for a value typed \<open>string\<close> that is \<open>undefined\<close> when the variable is unset.\<close>

definition template_env :: "jsstring option \<Rightarrow> jsstring" where
  "template_env v = (case v of None \<Rightarrow> js ''undefined'' | Some s \<Rightarrow> s)"

section \<open>Global state\<close>

record session =
  browser :: browser_handle
  page :: "page_handle option"

text \<open>Every call that leaves the process, in the order made.\<close>

datatype event =
    EvFetch jsstring
  | EvResponseJson
  | EvConnect json
  | EvPages browser_handle
  | EvTitle page_handle
  | EvGoto page_handle json
  | EvEvaluate page_handle json
  | EvUrl page_handle
  | EvScreenshot page_handle
  | EvClick page_handle json
  | EvWaitForSelector page_handle json
  | EvType page_handle json json
  | EvInnerText page_handle
  | EvNotification jsstring
  | EvConsoleError jsstring "thrown option"

record state =
  browsers :: "(jsstring option \<times> session) list"
  screenshots :: "(json \<times> jsstring) list"
  defaultBrowserSession :: "session option"
  trace :: "event list"

text \<open>An asynchronous computation: it reads and writes the state, and returns or throws.\<close>

type_synonym 'a io = "state \<Rightarrow> state \<times> (thrown + 'a)"

definition ret :: "'a \<Rightarrow> 'a io" where
  "ret x = (\<lambda>s. (s, Inr x))"

definition throw :: "thrown \<Rightarrow> 'a io" where
  "throw e = (\<lambda>s. (s, Inl e))"

definition lift :: "thrown + 'a \<Rightarrow> 'a io" where
  "lift r = (\<lambda>s. (s, r))"

definition bind :: "'a io \<Rightarrow> ('a \<Rightarrow> 'b io) \<Rightarrow> 'b io" where
  "bind m f = (\<lambda>s. case m s of (s', Inl e) \<Rightarrow> (s', Inl e) | (s', Inr x) \<Rightarrow> f x s')"

definition try_catch :: "'a io \<Rightarrow> (thrown \<Rightarrow> 'a io) \<Rightarrow> 'a io" where
  "try_catch m h = (\<lambda>s. case m s of (s', Inl e) \<Rightarrow> h e s' | (s', Inr x) \<Rightarrow> (s', Inr x))"

definition emit :: "event \<Rightarrow> unit io" where
  "emit ev = (\<lambda>s. (s\<lparr>trace := trace s @ [ev]\<rparr>, Inr ()))"

text \<open>An awaited external call: it is recorded, then returns or rejects.\<close>

definition ext :: "event \<Rightarrow> thrown + 'a \<Rightarrow> 'a io" where
  "ext ev outcome = (\<lambda>s. (s\<lparr>trace := trace s @ [ev]\<rparr>, outcome))"

section \<open>Session provisioning\<close>

definition start_url :: "jsstring option \<Rightarrow> jsstring option \<Rightarrow> jsstring" where
  "start_url sessionId apiKey =
     js ''http://localhost:8080/v2/cloudbrowser/api/session/start?apiKey='' @
     template_env apiKey @ js ''&sessionId='' @ template_env sessionId"

definition failed_to_get :: "world \<Rightarrow> json \<Rightarrow> thrown" where
  "failed_to_get w data =
     ErrorObj (js ''Failed to get browserUrl. Response: '' @ JSON_stringify w data)"

text \<open>
  \<open>if (data.code === 200 && data.data && data.data.browserUrl) return data.data.browserUrl;
  else throw ...\<close>
\<close>

definition extract_browserUrl :: "world \<Rightarrow> json \<Rightarrow> thrown + json" where
  "extract_browserUrl w data =
     (case get_prop data ''code'' of
        Inl e \<Rightarrow> Inl e
      | Inr code \<Rightarrow>
          if code \<noteq> JNum 200 then Inl (failed_to_get w data)
          else (case get_prop data ''data'' of
                  Inl e \<Rightarrow> Inl e
                | Inr d \<Rightarrow>
                    if \<not> truthy d then Inl (failed_to_get w data)
                    else (case get_prop d ''browserUrl'' of
                            Inl e \<Rightarrow> Inl e
                          | Inr u \<Rightarrow>
                              if truthy u then Inr u else Inl (failed_to_get w data))))"

definition getBrowserUrl :: "world \<Rightarrow> jsstring option \<Rightarrow> jsstring option \<Rightarrow> json io" where
  "getBrowserUrl w sessionId apiKey =
     try_catch
       (bind (ext (EvFetch (start_url sessionId apiKey)) (fetch w (start_url sessionId apiKey)))
          (\<lambda>response.
             if \<not> ok response
             then throw (ErrorObj (js ''HTTP error! status: '' @ js (show_nat (status response))))
             else bind (ext EvResponseJson (body_json response))
                    (\<lambda>data. lift (extract_browserUrl w data))))
       (\<lambda>error.
          bind (emit (EvConsoleError (js ''Error fetching browserUrl:'') (Some error)))
            (\<lambda>_. throw error))"

definition first_page :: "page_handle list \<Rightarrow> page_handle option" where
  "first_page ps = (case ps of [] \<Rightarrow> None | p # _ \<Rightarrow> Some p)"

definition browsers_set :: "jsstring option \<Rightarrow> session \<Rightarrow> unit io" where
  "browsers_set k v = (\<lambda>s. (s\<lparr>browsers := Map_set (=) (browsers s) k v\<rparr>, Inr ()))"

definition createNewBrowserSession ::
  "world \<Rightarrow> jsstring option \<Rightarrow> jsstring option \<Rightarrow> session io" where
  "createNewBrowserSession w sessionId apiKey =
     bind (getBrowserUrl w sessionId apiKey)
       (\<lambda>connectUrl.
          bind (ext (EvConnect connectUrl) (puppeteer_connect w connectUrl))
            (\<lambda>b.
               bind (ext (EvPages b) (browser_pages w b))
                 (\<lambda>ps.
                    bind (browsers_set sessionId \<lparr>browser = b, page = first_page ps\<rparr>)
                      (\<lambda>_. ret \<lparr>browser = b, page = first_page ps\<rparr>))))"

section \<open>Session holder\<close>

definition set_defaultBrowserSession :: "session \<Rightarrow> unit io" where
  "set_defaultBrowserSession v = (\<lambda>s. (s\<lparr>defaultBrowserSession := Some v\<rparr>, Inr ()))"

text \<open>\<open>await defaultBrowserSession.page.evaluate(() => document.title)\<close>\<close>

definition probe :: "world \<Rightarrow> session \<Rightarrow> unit io" where
  "probe w held =
     (case page held of
        None \<Rightarrow> throw (cannot_read ''undefined'' ''evaluate'')
      | Some p \<Rightarrow> ext (EvTitle p) (page_title w p))"

definition ensureBrowserSession :: "world \<Rightarrow> session io" where
  "ensureBrowserSession w =
     try_catch
       (\<lambda>s. case defaultBrowserSession s of
               None \<Rightarrow>
                 bind (createNewBrowserSession w (env_SESSION_ID w) (env_API_KEY w))
                   (\<lambda>created. bind (set_defaultBrowserSession created) (\<lambda>_. ret created)) s
             | Some held \<Rightarrow> bind (probe w held) (\<lambda>_. ret held) s)
       (\<lambda>error. throw error)"

section \<open>Tool definitions\<close>

record property =
  property_type :: string
  property_description :: "string option"

record inputSchema =
  schema_type :: string
  properties :: "(string \<times> property) list"
  required :: "string list option"

record Tool =
  tool_name :: string
  description :: string
  inputSchema :: inputSchema

definition TOOLS :: "Tool list" where
  "TOOLS =
    [ \<lparr>tool_name = ''cloudbrowser_navigate'',
       description = ''Navigate to a URL'',
       inputSchema = \<lparr>schema_type = ''object'',
         properties = [(''url'', \<lparr>property_type = ''string'', property_description = None\<rparr>)],
         required = Some [''url'']\<rparr>\<rparr>,
      \<lparr>tool_name = ''cloudbrowser_evaluate'',
       description = ''Evaluate JavaScript in the browser'',
       inputSchema = \<lparr>schema_type = ''object'',
         properties = [(''script'', \<lparr>property_type = ''string'', property_description = None\<rparr>)],
         required = Some [''script'']\<rparr>\<rparr>,
      \<lparr>tool_name = ''cloudbrowser_get_current_url'',
       description = ''Retrieve the current URL of the browser page'',
       inputSchema = \<lparr>schema_type = ''object'', properties = [], required = None\<rparr>\<rparr>,
      \<lparr>tool_name = ''cloudbrowser_screenshot'',
       description = ''Takes a screenshot of the current page. Use this tool to learn where you are on the page when controlling the browser with Stagehand. Only use this tool when the other tools are not sufficient to get the information you need.'',
       inputSchema = \<lparr>schema_type = ''object'',
         properties = [(''name'', \<lparr>property_type = ''string'',
                                  property_description = Some ''Name of the screenshot''\<rparr>)],
         required = None\<rparr>\<rparr>,
      \<lparr>tool_name = ''cloudbrowser_click'',
       description = ''Click an element on the page'',
       inputSchema = \<lparr>schema_type = ''object'',
         properties = [(''selector'', \<lparr>property_type = ''string'',
                          property_description = Some ''CSS selector for element to click''\<rparr>)],
         required = Some [''selector'']\<rparr>\<rparr>,
      \<lparr>tool_name = ''cloudbrowser_fill'',
       description = ''Fill out an input field'',
       inputSchema = \<lparr>schema_type = ''object'',
         properties = [(''selector'', \<lparr>property_type = ''string'',
                          property_description = Some ''CSS selector for input field''\<rparr>),
                       (''value'', \<lparr>property_type = ''string'',
                          property_description = Some ''Value to fill''\<rparr>)],
         required = Some [''selector'', ''value'']\<rparr>\<rparr>,
      \<lparr>tool_name = ''cloudbrowser_get_text'',
       description = ''Extract all text content from the current page'',
       inputSchema = \<lparr>schema_type = ''object'', properties = [], required = Some []\<rparr>\<rparr> ]"

text \<open>The handler of \<open>ListToolsRequestSchema\<close>.\<close>

definition list_tools :: "Tool list" where
  "list_tools = TOOLS"

section \<open>Text extraction\<close>

text \<open>
  \<open>s.split(sep)\<close> for a string separator: the pieces between successive occurrences,
  searched left to right, each search resuming after the previous occurrence.
\<close>

fun split_from :: "'a list \<Rightarrow> 'a list \<Rightarrow> 'a list \<Rightarrow> 'a list list" where
  "split_from sep piece [] = [piece]"
| "split_from sep piece (c # cs) =
     (if prefix sep (c # cs) then piece # split_from sep [] (drop (length sep - 1) cs)
      else split_from sep (piece @ [c]) cs)"

definition split :: "'a list \<Rightarrow> 'a list \<Rightarrow> 'a list list" where
  "split sep s = (if sep = [] then map (\<lambda>c. [c]) s else split_from sep [] s)"

text \<open>\<open>lines.join(sep)\<close>\<close>

fun join :: "'a list \<Rightarrow> 'a list list \<Rightarrow> 'a list" where
  "join sep [] = []"
| "join sep [l] = l"
| "join sep (l # ls) = l @ sep @ join sep ls"

text \<open>\<open>s.includes(sub)\<close>\<close>

fun str_includes :: "'a list \<Rightarrow> 'a list \<Rightarrow> bool" where
  "str_includes [] sub = (sub = [])"
| "str_includes (c # cs) sub = (prefix sub (c # cs) \<or> str_includes cs sub)"

text \<open>
  White space and line terminators: what \<open>trim\<close> strips and what \<open>\s\<close> matches.
\<close>

definition is_space :: "jschar \<Rightarrow> bool" where
  "is_space c =
     (c = 0x09 \<or> c = 0x0A \<or> c = 0x0B \<or> c = 0x0C \<or> c = 0x0D \<or> c = 0x20 \<or> c = 0xA0 \<or>
      c = 0x1680 \<or> (0x2000 \<le> c \<and> c \<le> 0x200A) \<or> c = 0x2028 \<or> c = 0x2029 \<or>
      c = 0x202F \<or> c = 0x205F \<or> c = 0x3000 \<or> c = 0xFEFF)"

definition trim :: "jsstring \<Rightarrow> jsstring" where
  "trim s = rev (dropWhile is_space (rev (dropWhile is_space s)))"

definition is_lower :: "jschar \<Rightarrow> bool" where
  "is_lower c = (0x61 \<le> c \<and> c \<le> 0x7A)"

definition is_upper :: "jschar \<Rightarrow> bool" where
  "is_upper c = (0x41 \<le> c \<and> c \<le> 0x5A)"

definition is_digit :: "jschar \<Rightarrow> bool" where
  "is_digit c = (0x30 \<le> c \<and> c \<le> 0x39)"

definition chr :: "char \<Rightarrow> jschar" where
  "chr c = of_char c"

text \<open>
  Regular expressions, matched through derivatives: \<open>matches r s\<close> holds when \<open>r\<close>
  matches the whole of \<open>s\<close>.
\<close>

datatype rexp =
    RZero
  | ROne
  | RClass "jschar \<Rightarrow> bool"
  | RSeq rexp rexp
  | RAlt rexp rexp
  | RStar rexp

fun nullable :: "rexp \<Rightarrow> bool" where
  "nullable RZero = False"
| "nullable ROne = True"
| "nullable (RClass P) = False"
| "nullable (RSeq r s) = (nullable r \<and> nullable s)"
| "nullable (RAlt r s) = (nullable r \<or> nullable s)"
| "nullable (RStar r) = True"

fun deriv :: "jschar \<Rightarrow> rexp \<Rightarrow> rexp" where
  "deriv c RZero = RZero"
| "deriv c ROne = RZero"
| "deriv c (RClass P) = (if P c then ROne else RZero)"
| "deriv c (RSeq r s) =
     (if nullable r then RAlt (RSeq (deriv c r) s) (deriv c s) else RSeq (deriv c r) s)"
| "deriv c (RAlt r s) = RAlt (deriv c r) (deriv c s)"
| "deriv c (RStar r) = RSeq (deriv c r) (RStar r)"

fun matches :: "rexp \<Rightarrow> jsstring \<Rightarrow> bool" where
  "matches r [] = nullable r"
| "matches r (c # cs) = matches (deriv c r) cs"

definition RPlus :: "rexp \<Rightarrow> rexp" where
  "RPlus r = RSeq r (RStar r)"

definition RChar :: "char \<Rightarrow> rexp" where
  "RChar c = RClass (\<lambda>x. x = chr c)"

definition RAny :: rexp where
  "RAny = RStar (RClass (\<lambda>x. True))"

text \<open>\<open>/^\.[a-zA-Z0-9_-]+\s*{/\<close>: anchored at the start only.\<close>

definition class_selector_open :: rexp where
  "class_selector_open =
     RSeq (RChar CHR ''.'')
       (RSeq (RPlus (RClass (\<lambda>c. is_lower c \<or> is_upper c \<or> is_digit c \<or>
                                  c = chr CHR ''_'' \<or> c = chr CHR ''-'')))
          (RSeq (RStar (RClass is_space))
             (RSeq (RChar CHR ''{'') RAny)))"

text \<open>\<open>/^[a-zA-Z-]+:[a-zA-Z0-9%\s\(\)\.,-]+;$/\<close>\<close>

definition css_declaration :: rexp where
  "css_declaration =
     RSeq (RPlus (RClass (\<lambda>c. is_lower c \<or> is_upper c \<or> c = chr CHR ''-'')))
       (RSeq (RChar CHR '':'')
          (RSeq (RPlus (RClass (\<lambda>c. is_lower c \<or> is_upper c \<or> is_digit c \<or>
                                     c = chr CHR ''%'' \<or> is_space c \<or> c = chr CHR ''('' \<or>
                                     c = chr CHR '')'' \<or> c = chr CHR ''.'' \<or>
                                     c = chr CHR '','' \<or> c = chr CHR ''-'')))
             (RChar CHR '';'')))"

text \<open>The predicate handed to \<open>filter\<close>.\<close>

definition keep_line :: "jsstring \<Rightarrow> bool" where
  "keep_line line =
     (if line = [] then False
      else if (str_includes line (js ''{'') \<and> str_includes line (js ''}'')) \<or>
              str_includes line (js ''@keyframes'') \<or>
              matches class_selector_open line \<or>
              matches css_declaration line
           then False
           else True)"

definition is_hex :: "jschar \<Rightarrow> bool" where
  "is_hex c = (is_digit c \<or> (0x61 \<le> c \<and> c \<le> 0x66) \<or> (0x41 \<le> c \<and> c \<le> 0x46))"

definition hex_value :: "jschar \<Rightarrow> nat" where
  "hex_value c =
     (if is_digit c then unat c - 0x30
      else if 0x61 \<le> c \<and> c \<le> 0x66 then unat c - 0x61 + 10
      else unat c - 0x41 + 10)"

text \<open>\<open>parseInt(hex, 16)\<close> on hexadecimal digits.\<close>

definition parseInt16 :: "jsstring \<Rightarrow> nat" where
  "parseInt16 hex = foldl (\<lambda>n c. 16 * n + hex_value c) 0 hex"

definition fromCharCode :: "nat \<Rightarrow> jschar" where
  "fromCharCode n = of_nat n"

text \<open>
  \<open>line.replace(/\\u([0-9a-fA-F]{4})/g, (_, hex) => String.fromCharCode(parseInt(hex, 16)))\<close>:
  every occurrence, left to right without overlap; what was put in is not scanned again.
\<close>

fun unescape :: "jsstring \<Rightarrow> jsstring" where
  "unescape (c0 # c1 # h1 # h2 # h3 # h4 # rest) =
     (if c0 = backslash \<and> c1 = chr CHR ''u'' \<and> is_hex h1 \<and> is_hex h2 \<and> is_hex h3 \<and> is_hex h4
      then fromCharCode (parseInt16 [h1, h2, h3, h4]) # unescape rest
      else c0 # unescape (c1 # h1 # h2 # h3 # h4 # rest))"
| "unescape (c # cs) = c # unescape cs"
| "unescape [] = []"

text \<open>The lines before the final map, and the \<open>content\<close> array.\<close>

definition kept_lines :: "jsstring \<Rightarrow> jsstring list" where
  "kept_lines bodyText = filter keep_line (map trim (split [LF] bodyText))"

definition extract_content :: "jsstring \<Rightarrow> jsstring list" where
  "extract_content bodyText = map unescape (kept_lines bodyText)"

definition extracted_text :: "jsstring \<Rightarrow> jsstring" where
  "extracted_text bodyText =
     js ''Extracted content:'' @ [LF] @ join [LF] (extract_content bodyText)"

section \<open>Tool handler\<close>

datatype content_item =
    TextContent jsstring
  | ImageContent jsstring jsstring

record CallToolResult =
  content :: "content_item list"
  isError :: bool

definition text_result :: "jsstring \<Rightarrow> bool \<Rightarrow> CallToolResult" where
  "text_result t e = \<lparr>content = [TextContent t], isError = e\<rparr>"

text \<open>
  \<open>session!.page.method\<close>: the member lookup that precedes each call on the page.
\<close>

definition session_page :: "session option \<Rightarrow> string \<Rightarrow> page_handle io" where
  "session_page session method =
     (case session of
        None \<Rightarrow> throw (cannot_read ''undefined'' ''page'')
      | Some s \<Rightarrow>
          (case page s of
             None \<Rightarrow> throw (cannot_read ''undefined'' method)
           | Some p \<Rightarrow> ret p))"

text \<open>\<open>`${JSON.stringify(result)}`\<close>, where \<open>JSON.stringify(undefined)\<close> is \<open>undefined\<close>.\<close>

definition template_stringify :: "world \<Rightarrow> json \<Rightarrow> jsstring" where
  "template_stringify w v = (if v = JUndefined then js ''undefined'' else JSON_stringify w v)"

definition screenshots_set :: "json \<Rightarrow> jsstring \<Rightarrow> unit io" where
  "screenshots_set k v =
     (\<lambda>s. (s\<lparr>screenshots := Map_set same_value_zero (screenshots s) k v\<rparr>, Inr ()))"

definition case_navigate :: "world \<Rightarrow> session option \<Rightarrow> json \<Rightarrow> CallToolResult io" where
  "case_navigate w session args =
     bind (session_page session ''goto'') (\<lambda>p.
     bind (lift (get_prop args ''url'')) (\<lambda>url.
     bind (ext (EvGoto p url) (page_goto w p url)) (\<lambda>_.
     bind (lift (template w url)) (\<lambda>t.
     ret (text_result (js ''Navigated to '' @ t) False)))))"

definition case_evaluate :: "world \<Rightarrow> session option \<Rightarrow> json \<Rightarrow> CallToolResult io" where
  "case_evaluate w session args =
     try_catch
       (bind (session_page session ''evaluate'') (\<lambda>p.
        bind (lift (get_prop args ''script'')) (\<lambda>script.
        bind (ext (EvEvaluate p script) (page_evaluate w p script)) (\<lambda>result.
        ret (text_result (js ''Evaluated script: '' @ template_stringify w result) False)))))
       (\<lambda>error.
        bind (lift (get_prop args ''script'')) (\<lambda>script.
        bind (lift (template w script)) (\<lambda>t.
        bind (lift (message error)) (\<lambda>m.
        ret (text_result
               (js ''Failed to Evaluated script: '' @ t @ js '': '' @ m) True)))))"

definition case_get_current_url :: "world \<Rightarrow> session option \<Rightarrow> CallToolResult io" where
  "case_get_current_url w session =
     bind (session_page session ''url'') (\<lambda>p.
     bind (ext (EvUrl p) (page_url w p)) (\<lambda>currentUrl.
     ret (text_result (js ''Current URL: '' @ currentUrl) False)))"

definition case_screenshot :: "world \<Rightarrow> session option \<Rightarrow> json \<Rightarrow> CallToolResult io" where
  "case_screenshot w session args =
     bind (session_page session ''screenshot'') (\<lambda>p.
     bind (ext (EvScreenshot p) (page_screenshot w p)) (\<lambda>screenshot.
     if screenshot = [] then ret (text_result (js ''Screenshot failed'') True)
     else
       bind (lift (get_prop args ''name'')) (\<lambda>name.
       bind (screenshots_set name screenshot) (\<lambda>_.
       bind (emit (EvNotification (js ''notifications/resources/list_changed''))) (\<lambda>_.
       ret \<lparr>content = [TextContent (js ''Screenshot taken''),
                        ImageContent screenshot (js ''image/png'')],
            isError = False\<rparr>)))))"

definition case_click :: "world \<Rightarrow> session option \<Rightarrow> json \<Rightarrow> CallToolResult io" where
  "case_click w session args =
     try_catch
       (bind (session_page session ''click'') (\<lambda>p.
        bind (lift (get_prop args ''selector'')) (\<lambda>selector.
        bind (ext (EvClick p selector) (page_click w p selector)) (\<lambda>_.
        bind (lift (template w selector)) (\<lambda>t.
        ret (text_result (js ''Clicked: '' @ t) False))))))
       (\<lambda>error.
        bind (lift (get_prop args ''selector'')) (\<lambda>selector.
        bind (lift (template w selector)) (\<lambda>t.
        bind (lift (message error)) (\<lambda>m.
        ret (text_result (js ''Failed to click '' @ t @ js '': '' @ m) True)))))"

definition case_fill :: "world \<Rightarrow> session option \<Rightarrow> json \<Rightarrow> CallToolResult io" where
  "case_fill w session args =
     try_catch
       (bind (session_page session ''waitForSelector'') (\<lambda>p.
        bind (lift (get_prop args ''selector'')) (\<lambda>selector.
        bind (ext (EvWaitForSelector p selector) (page_waitForSelector w p selector)) (\<lambda>_.
        bind (session_page session ''type'') (\<lambda>p'.
        bind (lift (get_prop args ''value'')) (\<lambda>v.
        bind (ext (EvType p' selector v) (page_type w p' selector v)) (\<lambda>_.
        bind (lift (template w selector)) (\<lambda>t.
        bind (lift (template w v)) (\<lambda>tv.
        ret (text_result (js ''Filled '' @ t @ js '' with: '' @ tv) False))))))))))
       (\<lambda>error.
        bind (lift (get_prop args ''selector'')) (\<lambda>selector.
        bind (lift (template w selector)) (\<lambda>t.
        bind (lift (message error)) (\<lambda>m.
        ret (text_result (js ''Failed to fill '' @ t @ js '': '' @ m) True)))))"

definition case_get_text :: "world \<Rightarrow> session option \<Rightarrow> CallToolResult io" where
  "case_get_text w session =
     try_catch
       (bind (session_page session ''evaluate'') (\<lambda>p.
        bind (ext (EvInnerText p) (page_innerText w p)) (\<lambda>bodyText.
        ret (text_result (extracted_text bodyText) False))))
       (\<lambda>error.
        bind (lift (message error)) (\<lambda>m.
        ret (text_result (js ''Failed to extract content: '' @ m) True)))"

text \<open>The \<open>switch\<close>.\<close>

definition dispatch :: "world \<Rightarrow> jsstring \<Rightarrow> session option \<Rightarrow> json \<Rightarrow> CallToolResult io" where
  "dispatch w name session args =
     (if name = js ''cloudbrowser_navigate'' then case_navigate w session args
      else if name = js ''cloudbrowser_evaluate'' then case_evaluate w session args
      else if name = js ''cloudbrowser_get_current_url'' then case_get_current_url w session
      else if name = js ''cloudbrowser_screenshot'' then case_screenshot w session args
      else if name = js ''cloudbrowser_click'' then case_click w session args
      else if name = js ''cloudbrowser_fill'' then case_fill w session args
      else if name = js ''cloudbrowser_get_text'' then case_get_text w session
      else ret (text_result (js ''Unknown tool: '' @ name) True))"

text \<open>The body of the outer \<open>try\<close>.\<close>

definition handleToolCall_try :: "world \<Rightarrow> jsstring \<Rightarrow> json \<Rightarrow> CallToolResult io" where
  "handleToolCall_try w name args =
     bind (if \<not> List.member [js ''cloudbrowser_create_session''] name
           then bind (ensureBrowserSession w) (\<lambda>session. ret (Some session))
           else ret None)
       (\<lambda>session. dispatch w name session args)"

definition failed_to_handle :: "thrown \<Rightarrow> jsstring" where
  "failed_to_handle error = js ''Failed to handle tool call: '' @ errorMsg error"

definition handleToolCall :: "world \<Rightarrow> jsstring \<Rightarrow> json \<Rightarrow> state \<Rightarrow> state \<times> CallToolResult" where
  "handleToolCall w name args s =
     (case handleToolCall_try w name args s of
        (s', Inr result) \<Rightarrow> (s', result)
      | (s', Inl error) \<Rightarrow>
          (s'\<lparr>trace := trace s' @ [EvConsoleError (failed_to_handle error) None]\<rparr>,
           text_result (failed_to_handle error) True))"

section \<open>Request handlers\<close>

record resource =
  uri :: jsstring
  mimeType :: jsstring
  resource_name :: jsstring

text \<open>The handler of \<open>ListResourcesRequestSchema\<close>: one entry per key, in the map's order.\<close>

fun resources_of :: "world \<Rightarrow> json list \<Rightarrow> thrown + resource list" where
  "resources_of w [] = Inr []"
| "resources_of w (name # names) =
     (case template w name of
        Inl e \<Rightarrow> Inl e
      | Inr t \<Rightarrow>
          (case resources_of w names of
             Inl e \<Rightarrow> Inl e
           | Inr rs \<Rightarrow>
               Inr (\<lparr>uri = js ''screenshot://'' @ t, mimeType = js ''image/png'',
                     resource_name = js ''Screenshot: '' @ t\<rparr> # rs)))"

definition list_resources :: "world \<Rightarrow> state \<Rightarrow> thrown + resource list" where
  "list_resources w s = resources_of w (map fst (screenshots s))"

record resource_contents =
  contents_uri :: jsstring
  contents_mimeType :: jsstring
  blob :: jsstring

definition resource_not_found :: "jsstring \<Rightarrow> thrown" where
  "resource_not_found u = ErrorObj (js ''Resource not found: '' @ u)"

text \<open>\<open>xs[1]\<close>, which is \<open>undefined\<close> past the end.\<close>

definition second :: "jsstring list \<Rightarrow> json" where
  "second xs = (case xs of _ # x # _ \<Rightarrow> JStr x | _ \<Rightarrow> JUndefined)"

text \<open>The handler of \<open>ReadResourceRequestSchema\<close>.\<close>

definition read_resource :: "state \<Rightarrow> jsstring \<Rightarrow> thrown + resource_contents list" where
  "read_resource s u =
     (if prefix (js ''screenshot://'') u
      then (case Map_get same_value_zero (screenshots s) (second (split (js ''://'') u)) of
              Some screenshot \<Rightarrow>
                if screenshot \<noteq> []
                then Inr [\<lparr>contents_uri = u, contents_mimeType = js ''image/png'',
                           blob = screenshot\<rparr>]
                else Inl (resource_not_found u)
            | None \<Rightarrow> Inl (resource_not_found u))
      else Inl (resource_not_found u))"

text \<open>The state when the process starts.\<close>

definition initial_state :: state where
  "initial_state = \<lparr>browsers = [], screenshots = [], defaultBrowserSession = None, trace = []\<rparr>"

section \<open>Observations and sample inputs\<close>

definition is_fetch :: "event \<Rightarrow> bool" where
  "is_fetch ev = (case ev of EvFetch _ \<Rightarrow> True | _ \<Rightarrow> False)"

definition provisioning_calls :: "event list \<Rightarrow> nat" where
  "provisioning_calls tr = length (filter is_fetch tr)"

definition is_provisioning :: "event \<Rightarrow> bool" where
  "is_provisioning ev =
     (case ev of EvFetch _ \<Rightarrow> True | EvResponseJson \<Rightarrow> True | EvConnect _ \<Rightarrow> True
      | EvPages _ \<Rightarrow> True | _ \<Rightarrow> False)"

definition is_probe :: "event \<Rightarrow> bool" where
  "is_probe ev = (case ev of EvTitle _ \<Rightarrow> True | _ \<Rightarrow> False)"

definition steps :: "(event \<Rightarrow> bool) \<Rightarrow> 'a io \<Rightarrow> bool" where
  "steps P m =
     (\<forall>s s' r. m s = (s', r) \<longrightarrow>
        defaultBrowserSession s' = defaultBrowserSession s \<and> browsers s' = browsers s \<and>
        (\<exists>evs. trace s' = trace s @ evs \<and> (\<forall>ev \<in> set evs. P ev)))"

definition tool_event :: "event \<Rightarrow> bool" where
  "tool_event ev = (\<not> is_provisioning ev \<and> \<not> is_probe ev)"

definition ok_response :: response where
  "ok_response =
     \<lparr>status = 200,
      body_json = Inr (JObj [(js ''code'', JNum 200),
                             (js ''data'', JObj [(js ''browserUrl'', JStr (js ''ws://host/devtools''))])])\<rparr>"

definition live_world :: world where
  "live_world =
     \<lparr>env_SESSION_ID = Some (js ''s1''), env_API_KEY = Some (js ''k1''),
      fetch = (\<lambda>_. Inr ok_response),
      puppeteer_connect = (\<lambda>_. Inr 7),
      browser_pages = (\<lambda>_. Inr [3]),
      page_title = (\<lambda>_. Inr ()),
      page_goto = (\<lambda>_ _. Inr ()),
      page_evaluate = (\<lambda>_ _. Inr (JNum 2)),
      page_url = (\<lambda>_. Inr (js ''about:blank'')),
      page_screenshot = (\<lambda>_. Inr (js ''iVBORw0KGgo='')),
      page_click = (\<lambda>_ _. Inr ()),
      page_waitForSelector = (\<lambda>_ _. Inr ()),
      page_type = (\<lambda>_ _ _. Inr ()),
      page_innerText = (\<lambda>_. Inr (js ''hello'')),
      ToString = (\<lambda>_. Inr (js ''[object Object]'')),
      JSON_stringify = (\<lambda>_. js ''2'')\<rparr>"

definition closed_world :: world where
  "closed_world = live_world\<lparr>page_title := (\<lambda>_. Inl (ErrorObj (js ''Target closed'')))\<rparr>"

definition unreachable_world :: world where
  "unreachable_world = live_world\<lparr>fetch := (\<lambda>_. Inl (ErrorObj (js ''fetch failed'')))\<rparr>"

definition held_session :: session where
  "held_session = \<lparr>browser = 7, page = Some 3\<rparr>"

definition held_state :: state where
  "held_state = initial_state\<lparr>defaultBrowserSession := Some held_session\<rparr>"

text \<open>
  Requests are handled one at a time, each to completion: a run of tool calls, each with
  what the outside answers during it.
\<close>

fun run_calls :: "(world \<times> jsstring \<times> json) list \<Rightarrow> state \<Rightarrow> state" where
  "run_calls [] s = s"
| "run_calls ((w, name, args) # cs) s = run_calls cs (fst (handleToolCall w name args s))"

definition navigate_args :: json where
  "navigate_args = JObj [(js ''url'', JStr (js ''http://a.test/''))]"

definition provisioned_state :: state where
  "provisioned_state =
     \<lparr>browsers = [(Some (js ''s1''), held_session)], screenshots = [],
      defaultBrowserSession = Some held_session,
      trace = [EvFetch (start_url (Some (js ''s1'')) (Some (js ''k1''))), EvResponseJson,
               EvConnect (JStr (js ''ws://host/devtools'')), EvPages 7,
               EvGoto 3 (JStr (js ''http://a.test/''))]\<rparr>"

definition empty_url_payload :: json where
  "empty_url_payload =
     JObj [(js ''code'', JNum 200), (js ''data'', JObj [(js ''browserUrl'', JStr [])])]"

definition empty_url_world :: world where
  "empty_url_world =
     live_world\<lparr>fetch := (\<lambda>_. Inr \<lparr>status = 200, body_json = Inr empty_url_payload\<rparr>)\<rparr>"

definition not_found_world :: world where
  "not_found_world =
     live_world\<lparr>fetch := (\<lambda>_. Inr \<lparr>status = 404, body_json = Inr JNull\<rparr>)\<rparr>"

definition styled_body :: jsstring where
  "styled_body = js ''  color: blue; '' @ [LF] @ js '' hello ''"

definition escaped_body :: jsstring where
  "escaped_body = js ''color'' @ [backslash] @ js ''u003a blue;''"

definition other_world :: world where
  "other_world = live_world\<lparr>page_screenshot := (\<lambda>_. Inr (js ''R0lGODlh''))\<rparr>"

definition name_args :: "jsstring \<Rightarrow> json" where
  "name_args n = JObj [(js ''name'', JStr n)]"

definition two_screenshots :: state where
  "two_screenshots =
     run_calls [(live_world, js ''cloudbrowser_screenshot'', name_args (js ''a'')),
                (other_world, js ''cloudbrowser_screenshot'', name_args (js ''a://b''))]
       initial_state"

definition missing_world :: world where
  "missing_world =
     live_world\<lparr>page_click := (\<lambda>_ _. Inl (ErrorObj (js ''No element found for selector: #missing'')))\<rparr>"

definition click_args :: json where
  "click_args = JObj [(js ''selector'', JStr (js ''#missing''))]"

definition refused_world :: world where
  "refused_world =
     live_world\<lparr>puppeteer_connect := (\<lambda>_. Inl (ErrorObj (js ''connect ECONNREFUSED'')))\<rparr>"

definition detached_world :: world where
  "detached_world =
     live_world\<lparr>page_click := (\<lambda>_ _. Inl (ErrorObj (js ''Node is detached from document'')))\<rparr>"

definition null_world :: world where
  "null_world = live_world\<lparr>page_evaluate := (\<lambda>_ _. Inl ThrownNull)\<rparr>"

definition throw_null_args :: json where
  "throw_null_args = JObj [(js ''script'', JStr (js ''throw null''))]"

definition pageless_world :: world where
  "pageless_world = live_world\<lparr>browser_pages := (\<lambda>_. Inr [])\<rparr>"

definition pageless_session :: session where
  "pageless_session = \<lparr>browser = 7, page = None\<rparr>"

definition poison_key :: json where
  "poison_key = JObj [(js ''toString'', JNum 1)]"

definition poison_world :: world where
  "poison_world =
     live_world\<lparr>ToString :=
       (\<lambda>v. if v = poison_key then Inl (ErrorObj (js ''Cannot convert object to primitive value''))
            else Inr (js ''[object Object]''))\<rparr>"

definition poisoned_then_a :: state where
  "poisoned_then_a =
     run_calls [(poison_world, js ''cloudbrowser_screenshot'', JObj [(js ''name'', poison_key)]),
                (poison_world, js ''cloudbrowser_screenshot'', name_args (js ''a''))]
       initial_state"

section \<open>Basic facts\<close>

lemmas io_defs = bind_def ret_def throw_def lift_def try_catch_def ext_def emit_def

lemma steps_ret: "steps P (ret x)"
  by (simp add: steps_def ret_def)

lemma steps_throw: "steps P (throw e)"
  by (simp add: steps_def throw_def)

lemma steps_lift: "steps P (lift r)"
  by (simp add: steps_def lift_def)

lemma steps_ext: "P ev \<Longrightarrow> steps P (ext ev r)"
  by (auto simp add: steps_def ext_def)

lemma steps_emit: "P ev \<Longrightarrow> steps P (emit ev)"
  by (auto simp add: steps_def emit_def)

lemma steps_bind:
  assumes m: "steps P m" and f: "\<And>x. steps P (f x)"
  shows "steps P (bind m f)"
  unfolding steps_def
proof (intro allI impI)
  fix s s' r
  assume run: "bind m f s = (s', r)"
  obtain s1 r1 where m1: "m s = (s1, r1)" by (cases "m s")
  from m m1 have a: "defaultBrowserSession s1 = defaultBrowserSession s" "browsers s1 = browsers s"
    and "\<exists>evs. trace s1 = trace s @ evs \<and> (\<forall>ev \<in> set evs. P ev)"
    unfolding steps_def by blast+
  then obtain evs1 where e1: "trace s1 = trace s @ evs1" "\<forall>ev \<in> set evs1. P ev" by blast
  show "defaultBrowserSession s' = defaultBrowserSession s \<and> browsers s' = browsers s \<and>
        (\<exists>evs. trace s' = trace s @ evs \<and> (\<forall>ev \<in> set evs. P ev))"
  proof (cases r1)
    case (Inl e)
    with run m1 have "s' = s1" by (simp add: bind_def)
    with a e1 show ?thesis by blast
  next
    case (Inr x)
    with run m1 have "f x s1 = (s', r)" by (simp add: bind_def)
    with f [of x] have b: "defaultBrowserSession s' = defaultBrowserSession s1" "browsers s' = browsers s1"
      and "\<exists>evs. trace s' = trace s1 @ evs \<and> (\<forall>ev \<in> set evs. P ev)"
      unfolding steps_def by blast+
    then obtain evs2 where e2: "trace s' = trace s1 @ evs2" "\<forall>ev \<in> set evs2. P ev" by blast
    from e1 e2 have "trace s' = trace s @ (evs1 @ evs2)" "\<forall>ev \<in> set (evs1 @ evs2). P ev" by auto
    with a b show ?thesis by metis
  qed
qed

lemma steps_try_catch:
  assumes m: "steps P m" and h: "\<And>e. steps P (h e)"
  shows "steps P (try_catch m h)"
  unfolding steps_def
proof (intro allI impI)
  fix s s' r
  assume run: "try_catch m h s = (s', r)"
  obtain s1 r1 where m1: "m s = (s1, r1)" by (cases "m s")
  from m m1 have a: "defaultBrowserSession s1 = defaultBrowserSession s" "browsers s1 = browsers s"
    and "\<exists>evs. trace s1 = trace s @ evs \<and> (\<forall>ev \<in> set evs. P ev)"
    unfolding steps_def by blast+
  then obtain evs1 where e1: "trace s1 = trace s @ evs1" "\<forall>ev \<in> set evs1. P ev" by blast
  show "defaultBrowserSession s' = defaultBrowserSession s \<and> browsers s' = browsers s \<and>
        (\<exists>evs. trace s' = trace s @ evs \<and> (\<forall>ev \<in> set evs. P ev))"
  proof (cases r1)
    case (Inr x)
    with run m1 have "s' = s1" by (simp add: try_catch_def)
    with a e1 show ?thesis by blast
  next
    case (Inl e)
    with run m1 have "h e s1 = (s', r)" by (simp add: try_catch_def)
    with h [of e] have b: "defaultBrowserSession s' = defaultBrowserSession s1" "browsers s' = browsers s1"
      and "\<exists>evs. trace s' = trace s1 @ evs \<and> (\<forall>ev \<in> set evs. P ev)"
      unfolding steps_def by blast+
    then obtain evs2 where e2: "trace s' = trace s1 @ evs2" "\<forall>ev \<in> set evs2. P ev" by blast
    from e1 e2 have "trace s' = trace s @ (evs1 @ evs2)" "\<forall>ev \<in> set (evs1 @ evs2). P ev" by auto
    with a b show ?thesis by metis
  qed
qed

lemma steps_session_page: "steps P (session_page sess m)"
  by (auto simp: session_page_def steps_throw steps_ret split: option.splits)

lemma steps_screenshots_set: "steps P (screenshots_set k v)"
  by (simp add: steps_def screenshots_set_def)

lemmas steps_intros = steps_ret steps_throw steps_lift steps_ext steps_emit steps_bind
  steps_try_catch steps_session_page steps_screenshots_set

lemma tool_event_simps [simp]:
  "tool_event (EvGoto p u)" "tool_event (EvEvaluate p u)" "tool_event (EvUrl p)"
  "tool_event (EvScreenshot p)" "tool_event (EvClick p u)" "tool_event (EvWaitForSelector p u)"
  "tool_event (EvType p u v)" "tool_event (EvInnerText p)" "tool_event (EvNotification n)"
  "tool_event (EvConsoleError t e)"
  by (simp_all add: tool_event_def is_provisioning_def is_probe_def)

lemma steps_dispatch: "steps tool_event (dispatch w name sess args)"
  unfolding dispatch_def case_navigate_def case_evaluate_def case_get_current_url_def
    case_screenshot_def case_click_def case_fill_def case_get_text_def
  by (intro steps_intros conjI impI tool_event_simps | simp only: split: if_split)+

lemma ensure_held:
  "defaultBrowserSession s = Some held \<Longrightarrow>
   ensureBrowserSession w s =
     (case page held of
        None \<Rightarrow> (s, Inl (cannot_read ''undefined'' ''evaluate''))
      | Some p \<Rightarrow>
          (s\<lparr>trace := trace s @ [EvTitle p]\<rparr>,
           case page_title w p of Inl e \<Rightarrow> Inl e | Inr _ \<Rightarrow> Inr held))"
  by (auto simp: ensureBrowserSession_def probe_def io_defs split: prod.splits sum.splits option.splits)

lemma ensure_none:
  "defaultBrowserSession s = None \<Longrightarrow>
   ensureBrowserSession w s =
     (case createNewBrowserSession w (env_SESSION_ID w) (env_API_KEY w) s of
        (s', Inl e) \<Rightarrow> (s', Inl e)
      | (s', Inr created) \<Rightarrow> (s'\<lparr>defaultBrowserSession := Some created\<rparr>, Inr created))"
  by (auto simp: ensureBrowserSession_def set_defaultBrowserSession_def io_defs
      split: prod.splits sum.splits)

section \<open>Provisioning: what a call changes\<close>

lemma getBrowserUrl_eq:
  "getBrowserUrl w sid key s =
     (let u = start_url sid key; s1 = s\<lparr>trace := trace s @ [EvFetch u]\<rparr>;
          report = (\<lambda>st e. (st\<lparr>trace := trace st @
                       [EvConsoleError (js ''Error fetching browserUrl:'') (Some e)]\<rparr>, Inl e)) in
      case fetch w u of
        Inl e \<Rightarrow> report s1 e
      | Inr response \<Rightarrow>
          if \<not> ok response
          then report s1 (ErrorObj (js ''HTTP error! status: '' @ js (show_nat (status response))))
          else
            (let s2 = s1\<lparr>trace := trace s1 @ [EvResponseJson]\<rparr> in
             case body_json response of
               Inl e \<Rightarrow> report s2 e
             | Inr data \<Rightarrow>
                 (case extract_browserUrl w data of
                    Inl e \<Rightarrow> report s2 e
                  | Inr url \<Rightarrow> (s2, Inr url))))"
  by (auto simp: getBrowserUrl_def io_defs Let_def split: prod.splits sum.splits)

lemma getBrowserUrl_frame:
  assumes "getBrowserUrl w sid key s = (s', r)"
  shows "defaultBrowserSession s' = defaultBrowserSession s" "browsers s' = browsers s"
    "screenshots s' = screenshots s"
    "provisioning_calls (trace s') = Suc (provisioning_calls (trace s))"
  using assms
  by (auto simp: getBrowserUrl_eq Let_def provisioning_calls_def is_fetch_def
      split: sum.splits if_splits)

lemma getBrowserUrl_Inr:
  assumes "getBrowserUrl w sid key s = (s', Inr url)"
  shows "\<exists>response data. fetch w (start_url sid key) = Inr response \<and> ok response \<and>
           body_json response = Inr data \<and> extract_browserUrl w data = Inr url"
  using assms by (auto simp: getBrowserUrl_eq Let_def split: sum.splits if_splits)

lemma createNewBrowserSession_eq:
  "createNewBrowserSession w sid key s =
     (case getBrowserUrl w sid key s of
        (s1, Inl e) \<Rightarrow> (s1, Inl e)
      | (s1, Inr url) \<Rightarrow>
          (let s2 = s1\<lparr>trace := trace s1 @ [EvConnect url]\<rparr> in
           case puppeteer_connect w url of
             Inl e \<Rightarrow> (s2, Inl e)
           | Inr b \<Rightarrow>
               (let s3 = s2\<lparr>trace := trace s2 @ [EvPages b]\<rparr> in
                case browser_pages w b of
                  Inl e \<Rightarrow> (s3, Inl e)
                | Inr ps \<Rightarrow>
                    (s3\<lparr>browsers := Map_set (=) (browsers s3) sid
                                       \<lparr>browser = b, page = first_page ps\<rparr>\<rparr>,
                     Inr \<lparr>browser = b, page = first_page ps\<rparr>))))"
  by (auto simp: createNewBrowserSession_def browsers_set_def io_defs Let_def
      split: prod.splits sum.splits)

lemma createNewBrowserSession_frame:
  assumes "createNewBrowserSession w sid key s = (s', r)"
  shows "defaultBrowserSession s' = defaultBrowserSession s"
    "screenshots s' = screenshots s"
    "provisioning_calls (trace s') = Suc (provisioning_calls (trace s))"
proof -
  obtain s1 r1 where g: "getBrowserUrl w sid key s = (s1, r1)"
    by (cases "getBrowserUrl w sid key s")
  note f = getBrowserUrl_frame [OF g]
  from assms g f show "defaultBrowserSession s' = defaultBrowserSession s"
    by (auto simp: createNewBrowserSession_eq Let_def split: sum.splits)
  from assms g f show "screenshots s' = screenshots s"
    by (auto simp: createNewBrowserSession_eq Let_def split: sum.splits)
  from assms g f show "provisioning_calls (trace s') = Suc (provisioning_calls (trace s))"
    by (auto simp: createNewBrowserSession_eq Let_def provisioning_calls_def is_fetch_def
        split: sum.splits)
qed

lemma createNewBrowserSession_Inl:
  assumes "createNewBrowserSession w sid key s = (s', Inl e)"
  shows "browsers s' = browsers s"
proof -
  obtain s1 r1 where g: "getBrowserUrl w sid key s = (s1, r1)"
    by (cases "getBrowserUrl w sid key s")
  from assms g getBrowserUrl_frame(2) [OF g] show ?thesis
    by (auto simp: createNewBrowserSession_eq Let_def split: sum.splits)
qed

lemma createNewBrowserSession_Inr:
  assumes "createNewBrowserSession w sid key s = (s', Inr created)"
  shows "\<exists>response data url b ps.
           fetch w (start_url sid key) = Inr response \<and> ok response \<and>
           body_json response = Inr data \<and> extract_browserUrl w data = Inr url \<and>
           puppeteer_connect w url = Inr b \<and> browser_pages w b = Inr ps \<and>
           created = \<lparr>browser = b, page = first_page ps\<rparr> \<and>
           browsers s' = Map_set (=) (browsers s) sid created"
proof -
  obtain s1 r1 where g: "getBrowserUrl w sid key s = (s1, r1)"
    by (cases "getBrowserUrl w sid key s")
  from assms g obtain url where r1: "r1 = Inr url"
    by (cases r1) (auto simp: createNewBrowserSession_eq)
  from getBrowserUrl_Inr [OF g [unfolded r1]] obtain response data where
    a: "fetch w (start_url sid key) = Inr response" "ok response"
       "body_json response = Inr data" "extract_browserUrl w data = Inr url"
    by blast
  from assms g r1 getBrowserUrl_frame(2) [OF g] have
    "\<exists>b ps. puppeteer_connect w url = Inr b \<and> browser_pages w b = Inr ps \<and>
           created = \<lparr>browser = b, page = first_page ps\<rparr> \<and>
           browsers s' = Map_set (=) (browsers s) sid created"
    by (auto simp: createNewBrowserSession_eq Let_def split: sum.splits)
  with a show ?thesis by blast
qed

section \<open>Tool handler: what a call changes\<close>

lemma tool_names_distinct [simp]:
  "js ''cloudbrowser_create_session'' \<noteq> js ''cloudbrowser_navigate''"
  "js ''cloudbrowser_create_session'' \<noteq> js ''cloudbrowser_evaluate''"
  "js ''cloudbrowser_create_session'' \<noteq> js ''cloudbrowser_get_current_url''"
  "js ''cloudbrowser_create_session'' \<noteq> js ''cloudbrowser_screenshot''"
  "js ''cloudbrowser_create_session'' \<noteq> js ''cloudbrowser_click''"
  "js ''cloudbrowser_create_session'' \<noteq> js ''cloudbrowser_fill''"
  "js ''cloudbrowser_create_session'' \<noteq> js ''cloudbrowser_get_text''"
  by (simp_all add: js_def)

lemma handleToolCall_try_eq:
  "handleToolCall_try w name args s =
     (if name = js ''cloudbrowser_create_session'' then dispatch w name None args s
      else (case ensureBrowserSession w s of
              (s1, Inl e) \<Rightarrow> (s1, Inl e)
            | (s1, Inr session) \<Rightarrow> dispatch w name (Some session) args s1))"
  by (auto simp: handleToolCall_try_def io_defs split: prod.splits sum.splits)

lemma dispatch_create_session:
  "dispatch w (js ''cloudbrowser_create_session'') session args s =
     (s, Inr (text_result (js ''Unknown tool: '' @ js ''cloudbrowser_create_session'') True))"
  by (simp add: dispatch_def ret_def)

lemma ensure_frame:
  assumes "ensureBrowserSession w s = (s1, r)"
  shows "screenshots s1 = screenshots s"
    "defaultBrowserSession s = Some held \<Longrightarrow>
       defaultBrowserSession s1 = Some held \<and> browsers s1 = browsers s \<and>
       provisioning_calls (trace s1) = provisioning_calls (trace s)"
    "defaultBrowserSession s = None \<Longrightarrow>
       provisioning_calls (trace s1) = Suc (provisioning_calls (trace s))"
    "defaultBrowserSession s = None \<Longrightarrow> r = Inl e \<Longrightarrow>
       defaultBrowserSession s1 = None \<and> browsers s1 = browsers s"
proof -
  obtain s2 r2 where c: "createNewBrowserSession w (env_SESSION_ID w) (env_API_KEY w) s = (s2, r2)"
    by (cases "createNewBrowserSession w (env_SESSION_ID w) (env_API_KEY w) s")
  note f = createNewBrowserSession_frame [OF c]
  show "screenshots s1 = screenshots s"
  proof (cases "defaultBrowserSession s")
    case None
    with assms c f show ?thesis by (auto simp: ensure_none split: sum.splits)
  next
    case (Some h)
    with assms show ?thesis by (auto simp: ensure_held split: sum.splits option.splits)
  qed
  show "defaultBrowserSession s = Some held \<Longrightarrow>
       defaultBrowserSession s1 = Some held \<and> browsers s1 = browsers s \<and>
       provisioning_calls (trace s1) = provisioning_calls (trace s)"
    using assms
    by (auto simp: ensure_held provisioning_calls_def is_fetch_def split: sum.splits option.splits)
  show "defaultBrowserSession s = None \<Longrightarrow>
       provisioning_calls (trace s1) = Suc (provisioning_calls (trace s))"
    using assms c f by (auto simp: ensure_none split: sum.splits)
  show "defaultBrowserSession s = None \<Longrightarrow> r = Inl e \<Longrightarrow>
       defaultBrowserSession s1 = None \<and> browsers s1 = browsers s"
    using assms c f createNewBrowserSession_Inl [of w "env_SESSION_ID w" "env_API_KEY w" s s2]
    by (auto simp: ensure_none split: sum.splits)
qed

lemma ensure_created:
  assumes "ensureBrowserSession w s = (s1, Inr created)" and "defaultBrowserSession s = None"
  shows "defaultBrowserSession s1 = Some created \<and>
         (\<exists>response data url b ps.
            fetch w (start_url (env_SESSION_ID w) (env_API_KEY w)) = Inr response \<and>
            ok response \<and> body_json response = Inr data \<and>
            extract_browserUrl w data = Inr url \<and>
            puppeteer_connect w url = Inr b \<and> browser_pages w b = Inr ps \<and>
            created = \<lparr>browser = b, page = first_page ps\<rparr> \<and>
            browsers s1 = Map_set (=) (browsers s) (env_SESSION_ID w) created)"
proof -
  obtain s2 r2 where c: "createNewBrowserSession w (env_SESSION_ID w) (env_API_KEY w) s = (s2, r2)"
    by (cases "createNewBrowserSession w (env_SESSION_ID w) (env_API_KEY w) s")
  from assms c have r2: "r2 = Inr created" and s1: "s1 = s2\<lparr>defaultBrowserSession := Some created\<rparr>"
    by (auto simp: ensure_none split: sum.splits)
  from createNewBrowserSession_Inr [OF c [unfolded r2]] s1 show ?thesis
    by auto
qed

lemma dispatch_frame:
  assumes "dispatch w name session args s = (s', r)"
  shows "defaultBrowserSession s' = defaultBrowserSession s" "browsers s' = browsers s"
    "provisioning_calls (trace s') = provisioning_calls (trace s)"
    "\<exists>evs. trace s' = trace s @ evs \<and> (\<forall>ev \<in> set evs. tool_event ev)"
proof -
  from steps_dispatch [of w name session args] assms
  have a: "defaultBrowserSession s' = defaultBrowserSession s" "browsers s' = browsers s"
    and "\<exists>evs. trace s' = trace s @ evs \<and> (\<forall>ev \<in> set evs. tool_event ev)"
    unfolding steps_def by blast+
  then obtain evs where e: "trace s' = trace s @ evs" "\<forall>ev \<in> set evs. tool_event ev"
    by blast
  have "\<forall>ev \<in> set evs. \<not> is_fetch ev"
    using e(2) by (auto simp: tool_event_def is_provisioning_def is_fetch_def split: event.splits)
  then have "filter is_fetch evs = []"
    by (simp add: filter_empty_conv)
  with e show "provisioning_calls (trace s') = provisioning_calls (trace s)"
    by (simp add: provisioning_calls_def)
  from a show "defaultBrowserSession s' = defaultBrowserSession s" "browsers s' = browsers s"
    by simp_all
  from e show "\<exists>evs. trace s' = trace s @ evs \<and> (\<forall>ev \<in> set evs. tool_event ev)"
    by blast
qed

lemma handleToolCall_frame:
  assumes "handleToolCall w name args s = (s', result)"
  shows "\<exists>s2 r. handleToolCall_try w name args s = (s2, r) \<and>
           defaultBrowserSession s' = defaultBrowserSession s2 \<and> browsers s' = browsers s2 \<and>
           screenshots s' = screenshots s2 \<and>
           provisioning_calls (trace s') = provisioning_calls (trace s2)"
  using assms
  by (auto simp: handleToolCall_def provisioning_calls_def is_fetch_def
      split: prod.splits sum.splits)

section \<open>Calls from a fresh and from a provisioned state\<close>

lemma live_navigate_run:
  "handleToolCall live_world (js ''cloudbrowser_navigate'') navigate_args initial_state =
     (provisioned_state, text_result (js ''Navigated to http://a.test/'') False)"
  by code_simp

lemma unreachable_navigate_run:
  "handleToolCall unreachable_world (js ''cloudbrowser_navigate'') navigate_args initial_state =
     (initial_state\<lparr>trace :=
        [EvFetch (start_url (Some (js ''s1'')) (Some (js ''k1''))),
         EvConsoleError (js ''Error fetching browserUrl:'') (Some (ErrorObj (js ''fetch failed''))),
         EvConsoleError (js ''Failed to handle tool call: fetch failed'') None]\<rparr>,
      text_result (js ''Failed to handle tool call: fetch failed'') True)"
  by code_simp

lemma held_navigate_run:
  "handleToolCall live_world (js ''cloudbrowser_navigate'') navigate_args provisioned_state =
     (provisioned_state\<lparr>trace := trace provisioned_state @
         [EvTitle 3, EvGoto 3 (JStr (js ''http://a.test/''))]\<rparr>,
      text_result (js ''Navigated to http://a.test/'') False)"
  by code_simp

lemma held_call:
  assumes "defaultBrowserSession s = Some held" and "handleToolCall w name args s = (s', result)"
  shows "defaultBrowserSession s' = Some held" "browsers s' = browsers s"
    "provisioning_calls (trace s') = provisioning_calls (trace s)"
proof -
  from handleToolCall_frame [OF assms(2)] obtain s2 r where
    t: "handleToolCall_try w name args s = (s2, r)" and
    f: "defaultBrowserSession s' = defaultBrowserSession s2" "browsers s' = browsers s2"
       "provisioning_calls (trace s') = provisioning_calls (trace s2)"
    by blast
  have "defaultBrowserSession s2 = Some held \<and> browsers s2 = browsers s \<and>
        provisioning_calls (trace s2) = provisioning_calls (trace s)"
  proof (cases "name = js ''cloudbrowser_create_session''")
    case True
    with t assms(1) show ?thesis
      by (simp add: handleToolCall_try_eq dispatch_create_session)
  next
    case False
    obtain s1 r1 where e: "ensureBrowserSession w s = (s1, r1)"
      by (cases "ensureBrowserSession w s")
    note ef = ensure_frame(2) [OF e assms(1)]
    show ?thesis
    proof (cases r1)
      case (Inl err)
      with t e False ef show ?thesis by (simp add: handleToolCall_try_eq)
    next
      case (Inr session)
      with t e False have "dispatch w name (Some session) args s1 = (s2, r)"
        by (simp add: handleToolCall_try_eq)
      from dispatch_frame(1-3) [OF this] ef show ?thesis by simp
    qed
  qed
  with f show "defaultBrowserSession s' = Some held" "browsers s' = browsers s"
    "provisioning_calls (trace s') = provisioning_calls (trace s)"
    by simp_all
qed

lemma fresh_call:
  assumes "defaultBrowserSession s = None" and "name \<noteq> js ''cloudbrowser_create_session''"
    and "handleToolCall w name args s = (s', result)"
  shows "provisioning_calls (trace s') = Suc (provisioning_calls (trace s))"
proof -
  from handleToolCall_frame [OF assms(3)] obtain s2 r where
    t: "handleToolCall_try w name args s = (s2, r)" and
    f: "provisioning_calls (trace s') = provisioning_calls (trace s2)"
    by blast
  obtain s1 r1 where e: "ensureBrowserSession w s = (s1, r1)"
    by (cases "ensureBrowserSession w s")
  note ef = ensure_frame(3) [OF e assms(1)]
  show ?thesis
  proof (cases r1)
    case (Inl err)
    with t e assms(2) ef f show ?thesis by (simp add: handleToolCall_try_eq)
  next
    case (Inr session)
    with t e assms(2) have "dispatch w name (Some session) args s1 = (s2, r)"
      by (simp add: handleToolCall_try_eq)
    from dispatch_frame(3) [OF this] ef f show ?thesis by simp
  qed
qed

lemma run_calls_held:
  "defaultBrowserSession s = Some held \<Longrightarrow>
   defaultBrowserSession (run_calls cs s) = Some held \<and>
   provisioning_calls (trace (run_calls cs s)) = provisioning_calls (trace s)"
proof (induction cs arbitrary: s)
  case Nil
  then show ?case by simp
next
  case (Cons c cs)
  obtain w name args where c: "c = (w, name, args)" by (cases c)
  obtain s' r where h: "handleToolCall w name args s = (s', r)"
    by (cases "handleToolCall w name args s")
  from held_call [OF Cons.prems h] Cons.IH [of s'] c h show ?case by simp
qed

lemma held_call_trace:
  assumes "defaultBrowserSession s = Some held" and "page held = Some p"
    and "page_title w p = Inr ()" and "name \<noteq> js ''cloudbrowser_create_session''"
  shows "\<exists>evs. trace (fst (handleToolCall w name args s)) = trace s @ EvTitle p # evs \<and>
               (\<forall>ev \<in> set evs. tool_event ev)"
proof -
  let ?s1 = "s\<lparr>trace := trace s @ [EvTitle p]\<rparr>"
  from assms have e: "ensureBrowserSession w s = (?s1, Inr held)"
    by (simp add: ensure_held)
  obtain s2 r where d: "dispatch w name (Some held) args ?s1 = (s2, r)"
    by (cases "dispatch w name (Some held) args ?s1")
  from dispatch_frame(4) [OF d] obtain evs where
    evs: "trace s2 = trace s @ EvTitle p # evs" "\<forall>ev \<in> set evs. tool_event ev"
    by auto
  show ?thesis
  proof (cases r)
    case (Inr res)
    with e d assms(4) evs show ?thesis
      by (auto simp: handleToolCall_def handleToolCall_try_eq)
  next
    case (Inl err)
    with e d assms(4) have
      "trace (fst (handleToolCall w name args s)) =
         trace s @ EvTitle p # (evs @ [EvConsoleError (failed_to_handle err) None])"
      using evs(1) by (simp add: handleToolCall_def handleToolCall_try_eq)
    moreover have "\<forall>ev \<in> set (evs @ [EvConsoleError (failed_to_handle err) None]). tool_event ev"
      using evs(2) by simp
    ultimately show ?thesis by blast
  qed
qed

section \<open>Provisioning: reading the payload\<close>

lemma get_prop_truthy_base:
  assumes "get_prop d k = Inr u" and "truthy u"
  shows "truthy d"
  using assms by (cases d) (auto simp: get_prop_def truthy_def)

lemma extract_browserUrl_Inr:
  "extract_browserUrl w data = Inr url \<longleftrightarrow>
     get_prop data ''code'' = Inr (JNum 200) \<and>
     (\<exists>d. get_prop data ''data'' = Inr d \<and> get_prop d ''browserUrl'' = Inr url) \<and> truthy url"
  using get_prop_truthy_base [of _ "''browserUrl''" url]
  by (auto simp: extract_browserUrl_def split: sum.splits)

lemma extract_browserUrl_Inl:
  assumes "data \<noteq> JNull" and "data \<noteq> JUndefined" and "extract_browserUrl w data = Inl e"
  shows "e = failed_to_get w data"
proof -
  from assms(1,2) obtain c where c: "get_prop data ''code'' = Inr c"
    by (cases data) (auto simp: get_prop_def)
  from assms(1,2) obtain d where d: "get_prop data ''data'' = Inr d"
    by (cases data) (auto simp: get_prop_def)
  show ?thesis
  proof (cases "c = JNum 200 \<and> truthy d")
    case False
    with assms(3) c d show ?thesis by (auto simp: extract_browserUrl_def split: if_splits)
  next
    case True
    then obtain u where "get_prop d ''browserUrl'' = Inr u"
      by (cases d) (auto simp: get_prop_def truthy_def)
    with assms(3) c d True show ?thesis by (auto simp: extract_browserUrl_def split: if_splits)
  qed
qed

lemma getBrowserUrl_snd:
  "snd (getBrowserUrl w sid key s) =
     (case fetch w (start_url sid key) of
        Inl e \<Rightarrow> Inl e
      | Inr response \<Rightarrow>
          if \<not> ok response
          then Inl (ErrorObj (js ''HTTP error! status: '' @ js (show_nat (status response))))
          else (case body_json response of
                  Inl e \<Rightarrow> Inl e
                | Inr data \<Rightarrow> extract_browserUrl w data))"
  by (auto simp: getBrowserUrl_eq Let_def split: sum.splits)

section \<open>Text extraction: lines in and out\<close>

lemma split_from_no_sep:
  "c \<notin> set l \<Longrightarrow> split_from [c] piece l = [piece @ l]"
  by (induction l arbitrary: piece) auto

lemma split_from_at_sep:
  "c \<notin> set l \<Longrightarrow> split_from [c] piece (l @ c # r) = (piece @ l) # split_from [c] [] r"
  by (induction l arbitrary: piece) auto

lemma split_from_join:
  "ls \<noteq> [] \<Longrightarrow> \<forall>l \<in> set ls. c \<notin> set l \<Longrightarrow> split_from [c] [] (join [c] ls) = ls"
proof (induction "[c]" ls rule: join.induct)
  case 1
  then show ?case by simp
next
  case (2 l)
  then show ?case by (simp add: split_from_no_sep)
next
  case (3 l v va)
  then show ?case by (simp add: split_from_at_sep)
qed

lemma split_from_pieces:
  "c \<notin> set piece \<Longrightarrow> \<forall>p \<in> set (split_from [c] piece s). c \<notin> set p"
proof (induction s arbitrary: piece)
  case Nil
  then show ?case by simp
next
  case (Cons a s)
  show ?case
  proof (cases "a = c")
    case True
    with Cons.prems Cons.IH [of "[]"] show ?thesis by simp
  next
    case False
    with Cons.prems Cons.IH [of "piece @ [a]"] show ?thesis by simp
  qed
qed

lemma set_trim: "set (trim s) \<subseteq> set s"
proof -
  have "set (dropWhile is_space (rev (dropWhile is_space s))) \<subseteq> set (rev (dropWhile is_space s))"
    by (auto dest: set_dropWhileD)
  also have "\<dots> \<subseteq> set s"
    by (auto dest: set_dropWhileD)
  finally show ?thesis by (simp add: trim_def)
qed

lemma kept_lines_no_LF: "\<forall>l \<in> set (kept_lines bodyText). LF \<notin> set l"
proof -
  have "\<forall>p \<in> set (split [LF] bodyText). LF \<notin> set p"
    using split_from_pieces [of LF "[]" bodyText] by (simp add: split_def)
  then show ?thesis
    using set_trim by (auto simp: kept_lines_def)
qed

lemma kept_lines_keep: "\<forall>l \<in> set (kept_lines bodyText). keep_line l"
  by (simp add: kept_lines_def)

lemma keep_line_not_css: "keep_line l \<Longrightarrow> l \<noteq> [] \<and> \<not> matches css_declaration l"
  by (auto simp: keep_line_def split: if_splits)

lemma header_facts:
  "LF \<notin> set (js ''Extracted content:'')" "\<not> matches css_declaration (js ''Extracted content:'')"
  "\<not> matches css_declaration []"
  by code_simp+

lemma output_lines:
  assumes "\<forall>l \<in> set ls. LF \<notin> set l"
  shows "split [LF] (js ''Extracted content:'' @ [LF] @ join [LF] ls) =
           js ''Extracted content:'' # (if ls = [] then [[]] else ls)"
proof -
  have "split [LF] (js ''Extracted content:'' @ [LF] @ join [LF] ls) =
          js ''Extracted content:'' # split_from [LF] [] (join [LF] ls)"
    using split_from_at_sep [OF header_facts(1), of "[]" "join [LF] ls"]
    by (simp add: split_def)
  also have "split_from [LF] [] (join [LF] ls) = (if ls = [] then [[]] else ls)"
    using assms by (simp add: split_from_join)
  finally show ?thesis .
qed

section \<open>Resource URIs and the catalog\<close>

lemma split_from_nonempty: "split_from sep piece s \<noteq> []"
  by (induction s arbitrary: piece) auto

lemma split_from_free:
  "sep \<noteq> [] \<Longrightarrow> \<not> str_includes s sep \<Longrightarrow> split_from sep piece s = [piece @ s]"
  by (induction s arbitrary: piece) auto

lemma split_from_first:
  assumes "sep \<noteq> []" and "str_includes s sep"
  shows "\<exists>pre rest. s = pre @ sep @ rest \<and>
           split_from sep piece s = (piece @ pre) # split_from sep [] rest \<and>
           (\<forall>pre' rest'. s = pre' @ sep @ rest' \<longrightarrow> length pre \<le> length pre')"
  using assms
proof (induction s arbitrary: piece)
  case Nil
  then show ?case by simp
next
  case (Cons c cs)
  show ?case
  proof (cases "prefix sep (c # cs)")
    case True
    then obtain rest where r: "c # cs = sep @ rest"
      by (auto simp: prefix_def)
    with Cons.prems(1) have "drop (length sep - 1) cs = rest"
      by (cases sep) auto
    moreover from True have
      "split_from sep piece (c # cs) = piece # split_from sep [] (drop (length sep - 1) cs)"
      by simp
    ultimately have "split_from sep piece (c # cs) = (piece @ []) # split_from sep [] rest"
      by simp
    moreover from r have "c # cs = [] @ sep @ rest"
      by simp
    moreover have
      "\<forall>pre' rest'. c # cs = pre' @ sep @ rest' \<longrightarrow> length ([]::'a list) \<le> length pre'"
      by simp
    ultimately show ?thesis by blast
  next
    case False
    with Cons.prems have "str_includes cs sep" by simp
    from Cons.IH [OF Cons.prems(1) this, of "piece @ [c]"] obtain pre rest where
      p: "cs = pre @ sep @ rest"
         "split_from sep (piece @ [c]) cs = (piece @ [c] @ pre) # split_from sep [] rest"
         "\<forall>pre' rest'. cs = pre' @ sep @ rest' \<longrightarrow> length pre \<le> length pre'"
      by auto
    have least: "\<forall>pre' rest'. c # cs = pre' @ sep @ rest' \<longrightarrow> length (c # pre) \<le> length pre'"
    proof (intro allI impI)
      fix pre' rest'
      assume d: "c # cs = pre' @ sep @ rest'"
      show "length (c # pre) \<le> length pre'"
      proof (cases pre')
        case Nil
        with d have "prefix sep (c # cs)" by (simp add: prefix_def)
        with False show ?thesis by simp
      next
        case (Cons a pre'')
        with d have "cs = pre'' @ sep @ rest'" by simp
        with p(3) have "length pre \<le> length pre''" by blast
        with Cons show ?thesis by simp
      qed
    qed
    from False p(1,2) have
      "c # cs = (c # pre) @ sep @ rest \<and>
       split_from sep piece (c # cs) = (piece @ (c # pre)) # split_from sep [] rest"
      by simp
    with least show ?thesis by blast
  qed
qed

lemma split_screenshot_uri:
  "split (js ''://'') (js ''screenshot://'' @ name) =
     js ''screenshot'' # split_from (js ''://'') [] name"
  by (simp add: split_def js_def)

lemma second_split_screenshot_uri:
  "second (split (js ''://'') (js ''screenshot://'' @ name)) = JStr (hd (split (js ''://'') name))"
proof -
  obtain x xs where "split_from (js ''://'') [] name = x # xs"
    using split_from_nonempty [of "js ''://''" "[]" name]
    by (cases "split_from (js ''://'') [] name") auto
  then show ?thesis
    by (simp add: split_screenshot_uri second_def) (simp add: split_def js_def)
qed

lemma prefix_screenshot_uri: "prefix (js ''screenshot://'') (js ''screenshot://'' @ name)"
  by simp

lemma same_value_zero_JStr [simp]: "same_value_zero k (JStr a) \<longleftrightarrow> k = JStr a"
  by (cases k) (auto simp: same_value_zero_def)

lemma Map_get_Map_set_JStr:
  "Map_get same_value_zero (Map_set same_value_zero m (JStr a) v) (JStr b) =
     (if a = b then Some v else Map_get same_value_zero m (JStr b))"
  by (induction m) auto

lemma keys_Map_set_JStr:
  "map fst (Map_set same_value_zero m (JStr a) v) =
     (if JStr a \<in> set (map fst m) then map fst m else map fst m @ [JStr a])"
proof (induction m)
  case Nil
  then show ?case by simp
next
  case (Cons e m)
  obtain k x where e: "e = (k, x)" by (cases e)
  show ?case
  proof (cases "k = JStr a")
    case True
    with e show ?thesis by simp
  next
    case False
    with e Cons show ?thesis by simp
  qed
qed

lemma resources_of_total:
  assumes "\<forall>k \<in> set ks. \<exists>t. template w k = Inr t"
  shows "\<exists>rs. resources_of w ks = Inr rs \<and>
           (\<forall>k \<in> set ks. \<forall>t. template w k = Inr t \<longrightarrow>
              \<lparr>uri = js ''screenshot://'' @ t, mimeType = js ''image/png'',
               resource_name = js ''Screenshot: '' @ t\<rparr> \<in> set rs)"
  using assms
proof (induction ks)
  case Nil
  then show ?case by simp
next
  case (Cons k ks)
  then obtain t where t: "template w k = Inr t" by auto
  from Cons obtain rs where rs: "resources_of w ks = Inr rs"
    "\<forall>k \<in> set ks. \<forall>t. template w k = Inr t \<longrightarrow>
        \<lparr>uri = js ''screenshot://'' @ t, mimeType = js ''image/png'',
         resource_name = js ''Screenshot: '' @ t\<rparr> \<in> set rs"
    by auto
  from t rs show ?case by auto
qed

lemma read_resource_eq:
  "read_resource s (js ''screenshot://'' @ name) =
     (case Map_get same_value_zero (screenshots s) (JStr (hd (split (js ''://'') name))) of
        Some screenshot \<Rightarrow>
          if screenshot \<noteq> []
          then Inr [\<lparr>contents_uri = js ''screenshot://'' @ name,
                     contents_mimeType = js ''image/png'', blob = screenshot\<rparr>]
          else Inl (resource_not_found (js ''screenshot://'' @ name))
      | None \<Rightarrow> Inl (resource_not_found (js ''screenshot://'' @ name)))"
  unfolding read_resource_def second_split_screenshot_uri
  using prefix_screenshot_uri [of name] by simp

lemma first_segment_free:
  "\<not> str_includes name (js ''://'') \<Longrightarrow> hd (split (js ''://'') name) = name"
  by (simp add: split_def split_from_free js_def)

lemma first_segment_first:
  assumes "str_includes name (js ''://'')"
  shows "\<exists>rest. name = hd (split (js ''://'') name) @ js ''://'' @ rest \<and>
           (\<forall>pre' rest'. name = pre' @ js ''://'' @ rest' \<longrightarrow>
              length (hd (split (js ''://'') name)) \<le> length pre')"
proof -
  have ne: "js ''://'' \<noteq> []" by (simp add: js_def)
  from split_from_first [OF ne assms, of "[]"] ne show ?thesis
    by (auto simp: split_def)
qed

lemma screenshot_call_success:
  assumes "handleToolCall w (js ''cloudbrowser_screenshot'') args s = (s', result)"
    and "\<not> isError result"
  shows "\<exists>s1 session p screenshot name.
           ensureBrowserSession w s = (s1, Inr session) \<and> page session = Some p \<and>
           page_screenshot w p = Inr screenshot \<and> screenshot \<noteq> [] \<and>
           get_prop args ''name'' = Inr name \<and>
           screenshots s' = Map_set same_value_zero (screenshots s) name screenshot \<and>
           result = \<lparr>content = [TextContent (js ''Screenshot taken''),
                                 ImageContent screenshot (js ''image/png'')],
                      isError = False\<rparr>"
proof -
  have n: "js ''cloudbrowser_screenshot'' \<noteq> js ''cloudbrowser_create_session''"
    by (simp add: js_def)
  have d: "dispatch w (js ''cloudbrowser_screenshot'') session args =
             case_screenshot w session args" for session
    by (simp add: dispatch_def js_def)
  obtain s1 r1 where e: "ensureBrowserSession w s = (s1, r1)"
    by (cases "ensureBrowserSession w s")
  note f = ensure_frame(1) [OF e]
  show ?thesis
  proof (cases r1)
    case (Inl err)
    with assms e n show ?thesis
      by (auto simp: handleToolCall_def handleToolCall_try_eq text_result_def)
  next
    case (Inr session)
    with assms e n f show ?thesis
      by (auto simp: handleToolCall_def handleToolCall_try_eq d case_screenshot_def
          session_page_def screenshots_set_def io_defs text_result_def
          split: option.splits sum.splits if_splits prod.splits)
  qed
qed

lemma screenshot_a_run:
  "handleToolCall live_world (js ''cloudbrowser_screenshot'') (name_args (js ''a'')) held_state =
     (held_state\<lparr>screenshots := [(JStr (js ''a''), js ''iVBORw0KGgo='')],
                 trace := [EvTitle 3, EvScreenshot 3,
                           EvNotification (js ''notifications/resources/list_changed'')]\<rparr>,
      \<lparr>content = [TextContent (js ''Screenshot taken''),
                  ImageContent (js ''iVBORw0KGgo='') (js ''image/png'')],
       isError = False\<rparr>)"
  by code_simp

section \<open>Tool handler: the result of each case\<close>

lemmas case_splits = option.splits sum.splits if_splits prod.splits

lemma case_navigate_Inr:
  assumes "case_navigate w session args s = (s', Inr r)"
  shows "\<not> isError r \<and> (\<exists>t. content r = [TextContent t]) \<and>
         (\<exists>sess p url. session = Some sess \<and> page sess = Some p \<and>
            get_prop args ''url'' = Inr url \<and> page_goto w p url = Inr ())"
  using assms
  by (auto simp: case_navigate_def session_page_def io_defs text_result_def split: case_splits)

lemma case_evaluate_Inr:
  assumes "case_evaluate w session args s = (s', Inr r)"
  shows "(\<exists>t. content r = [TextContent t]) \<and>
         (\<not> isError r \<longrightarrow>
            (\<exists>sess p script res. session = Some sess \<and> page sess = Some p \<and>
               get_prop args ''script'' = Inr script \<and> page_evaluate w p script = Inr res))"
  using assms
  by (auto simp: case_evaluate_def session_page_def io_defs text_result_def split: case_splits)

lemma case_get_current_url_Inr:
  assumes "case_get_current_url w session s = (s', Inr r)"
  shows "\<not> isError r \<and> (\<exists>t. content r = [TextContent t]) \<and>
         (\<exists>sess p u. session = Some sess \<and> page sess = Some p \<and> page_url w p = Inr u)"
  using assms
  by (auto simp: case_get_current_url_def session_page_def io_defs text_result_def
      split: case_splits)

lemma case_screenshot_Inr:
  assumes "case_screenshot w session args s = (s', Inr r)"
  shows "(\<exists>t rest. content r = TextContent t # rest) \<and>
         (\<not> isError r \<longrightarrow>
            (\<exists>sess p shot. session = Some sess \<and> page sess = Some p \<and>
               page_screenshot w p = Inr shot \<and> shot \<noteq> []))"
  using assms
  by (auto simp: case_screenshot_def session_page_def screenshots_set_def io_defs text_result_def
      split: case_splits)

lemma case_click_Inr:
  assumes "case_click w session args s = (s', Inr r)"
  shows "(\<exists>t. content r = [TextContent t]) \<and>
         (\<not> isError r \<longrightarrow>
            (\<exists>sess p selector. session = Some sess \<and> page sess = Some p \<and>
               get_prop args ''selector'' = Inr selector \<and> page_click w p selector = Inr ()))"
  using assms
  by (auto simp: case_click_def session_page_def io_defs text_result_def split: case_splits)

lemma case_fill_Inr:
  assumes "case_fill w session args s = (s', Inr r)"
  shows "(\<exists>t. content r = [TextContent t]) \<and>
         (\<not> isError r \<longrightarrow>
            (\<exists>sess p selector v. session = Some sess \<and> page sess = Some p \<and>
               get_prop args ''selector'' = Inr selector \<and> get_prop args ''value'' = Inr v \<and>
               page_waitForSelector w p selector = Inr () \<and> page_type w p selector v = Inr ()))"
  using assms
  by (auto simp: case_fill_def session_page_def io_defs text_result_def split: case_splits)

lemma case_get_text_Inr:
  assumes "case_get_text w session s = (s', Inr r)"
  shows "(\<exists>t. content r = [TextContent t]) \<and>
         (\<not> isError r \<longrightarrow>
            (\<exists>sess p bodyText. session = Some sess \<and> page sess = Some p \<and>
               page_innerText w p = Inr bodyText))"
  using assms
  by (auto simp: case_get_text_def session_page_def io_defs text_result_def split: case_splits)

lemma tool_names_differ:
  "js ''cloudbrowser_navigate'' \<noteq> js ''cloudbrowser_evaluate''"
  "js ''cloudbrowser_navigate'' \<noteq> js ''cloudbrowser_get_current_url''"
  "js ''cloudbrowser_navigate'' \<noteq> js ''cloudbrowser_screenshot''"
  "js ''cloudbrowser_navigate'' \<noteq> js ''cloudbrowser_click''"
  "js ''cloudbrowser_navigate'' \<noteq> js ''cloudbrowser_fill''"
  "js ''cloudbrowser_navigate'' \<noteq> js ''cloudbrowser_get_text''"
  "js ''cloudbrowser_evaluate'' \<noteq> js ''cloudbrowser_get_current_url''"
  "js ''cloudbrowser_evaluate'' \<noteq> js ''cloudbrowser_screenshot''"
  "js ''cloudbrowser_evaluate'' \<noteq> js ''cloudbrowser_click''"
  "js ''cloudbrowser_evaluate'' \<noteq> js ''cloudbrowser_fill''"
  "js ''cloudbrowser_evaluate'' \<noteq> js ''cloudbrowser_get_text''"
  "js ''cloudbrowser_get_current_url'' \<noteq> js ''cloudbrowser_screenshot''"
  "js ''cloudbrowser_get_current_url'' \<noteq> js ''cloudbrowser_click''"
  "js ''cloudbrowser_get_current_url'' \<noteq> js ''cloudbrowser_fill''"
  "js ''cloudbrowser_get_current_url'' \<noteq> js ''cloudbrowser_get_text''"
  "js ''cloudbrowser_screenshot'' \<noteq> js ''cloudbrowser_click''"
  "js ''cloudbrowser_screenshot'' \<noteq> js ''cloudbrowser_fill''"
  "js ''cloudbrowser_screenshot'' \<noteq> js ''cloudbrowser_get_text''"
  "js ''cloudbrowser_click'' \<noteq> js ''cloudbrowser_fill''"
  "js ''cloudbrowser_click'' \<noteq> js ''cloudbrowser_get_text''"
  "js ''cloudbrowser_fill'' \<noteq> js ''cloudbrowser_get_text''"
  by (simp_all add: js_def)

lemma dispatch_names:
  "dispatch w (js ''cloudbrowser_navigate'') session args = case_navigate w session args"
  "dispatch w (js ''cloudbrowser_evaluate'') session args = case_evaluate w session args"
  "dispatch w (js ''cloudbrowser_get_current_url'') session args = case_get_current_url w session"
  "dispatch w (js ''cloudbrowser_screenshot'') session args = case_screenshot w session args"
  "dispatch w (js ''cloudbrowser_click'') session args = case_click w session args"
  "dispatch w (js ''cloudbrowser_fill'') session args = case_fill w session args"
  "dispatch w (js ''cloudbrowser_get_text'') session args = case_get_text w session"
  using tool_names_differ by (simp_all add: dispatch_def)

lemma dispatch_Inr:
  assumes "dispatch w name session args s = (s', Inr r)"
  shows "(\<exists>t rest. content r = TextContent t # rest) \<and>
         (\<not> isError r \<longrightarrow>
            (\<exists>sess p. session = Some sess \<and> page sess = Some p \<and>
               (name = js ''cloudbrowser_navigate'' \<and>
                  (\<exists>url. get_prop args ''url'' = Inr url \<and> page_goto w p url = Inr ()) \<or>
                name = js ''cloudbrowser_evaluate'' \<and>
                  (\<exists>script res. get_prop args ''script'' = Inr script \<and>
                     page_evaluate w p script = Inr res) \<or>
                name = js ''cloudbrowser_get_current_url'' \<and> (\<exists>u. page_url w p = Inr u) \<or>
                name = js ''cloudbrowser_screenshot'' \<and>
                  (\<exists>shot. page_screenshot w p = Inr shot \<and> shot \<noteq> []) \<or>
                name = js ''cloudbrowser_click'' \<and>
                  (\<exists>selector. get_prop args ''selector'' = Inr selector \<and>
                     page_click w p selector = Inr ()) \<or>
                name = js ''cloudbrowser_fill'' \<and>
                  (\<exists>selector v. get_prop args ''selector'' = Inr selector \<and>
                     get_prop args ''value'' = Inr v \<and>
                     page_waitForSelector w p selector = Inr () \<and>
                     page_type w p selector v = Inr ()) \<or>
                name = js ''cloudbrowser_get_text'' \<and>
                  (\<exists>bodyText. page_innerText w p = Inr bodyText))))"
proof -
  consider
      (nav) "name = js ''cloudbrowser_navigate''"
    | (eval) "name = js ''cloudbrowser_evaluate''"
    | (url) "name = js ''cloudbrowser_get_current_url''"
    | (shot) "name = js ''cloudbrowser_screenshot''"
    | (click) "name = js ''cloudbrowser_click''"
    | (fill) "name = js ''cloudbrowser_fill''"
    | (gettext) "name = js ''cloudbrowser_get_text''"
    | (other) "name \<noteq> js ''cloudbrowser_navigate''" "name \<noteq> js ''cloudbrowser_evaluate''"
        "name \<noteq> js ''cloudbrowser_get_current_url''" "name \<noteq> js ''cloudbrowser_screenshot''"
        "name \<noteq> js ''cloudbrowser_click''" "name \<noteq> js ''cloudbrowser_fill''"
        "name \<noteq> js ''cloudbrowser_get_text''"
    by blast
  then show ?thesis
  proof cases
    case nav
    with assms case_navigate_Inr [of w session args s s' r] show ?thesis
      by (simp add: dispatch_names) blast
  next
    case eval
    with assms case_evaluate_Inr [of w session args s s' r] show ?thesis
      by (simp add: dispatch_names tool_names_differ) blast
  next
    case url
    with assms case_get_current_url_Inr [of w session s s' r] show ?thesis
      by (simp add: dispatch_names tool_names_differ) blast
  next
    case shot
    with assms case_screenshot_Inr [of w session args s s' r] show ?thesis
      by (simp add: dispatch_names tool_names_differ) blast
  next
    case click
    with assms case_click_Inr [of w session args s s' r] show ?thesis
      by (simp add: dispatch_names tool_names_differ) blast
  next
    case fill
    with assms case_fill_Inr [of w session args s s' r] show ?thesis
      by (simp add: dispatch_names tool_names_differ) blast
  next
    case gettext
    with assms case_get_text_Inr [of w session s s' r] show ?thesis
      by (simp add: dispatch_names tool_names_differ) blast
  next
    case other
    with assms show ?thesis
      by (auto simp: dispatch_def ret_def text_result_def)
  qed
qed

lemma handleToolCall_acquired:
  assumes "name \<noteq> js ''cloudbrowser_create_session''"
    and "ensureBrowserSession w s = (s1, Inr session)"
  shows "snd (handleToolCall w name args s) =
           (case snd (dispatch w name (Some session) args s1) of
              Inr r \<Rightarrow> r
            | Inl e \<Rightarrow> text_result (failed_to_handle e) True)"
  using assms
  by (auto simp: handleToolCall_def handleToolCall_try_eq split: prod.splits sum.splits)

lemma failure_texts:
  assumes "page session = Some p"
  shows
    "get_prop args ''url'' = Inr url \<Longrightarrow> page_goto w p url = Inl e \<Longrightarrow>
       snd (case_navigate w (Some session) args s) = Inl e"
    "get_prop args ''script'' = Inr script \<Longrightarrow> page_evaluate w p script = Inl e \<Longrightarrow>
       snd (case_evaluate w (Some session) args s) =
         (case template w script of
            Inl e' \<Rightarrow> Inl e'
          | Inr t \<Rightarrow>
              (case message e of
                 Inl e' \<Rightarrow> Inl e'
               | Inr m \<Rightarrow>
                   Inr (text_result
                          (js ''Failed to Evaluated script: '' @ t @ js '': '' @ m) True)))"
    "page_url w p = Inl e \<Longrightarrow> snd (case_get_current_url w (Some session) s) = Inl e"
    "page_screenshot w p = Inl e \<Longrightarrow> snd (case_screenshot w (Some session) args s) = Inl e"
    "page_screenshot w p = Inr [] \<Longrightarrow>
       snd (case_screenshot w (Some session) args s) =
         Inr (text_result (js ''Screenshot failed'') True)"
    "get_prop args ''selector'' = Inr selector \<Longrightarrow> page_click w p selector = Inl e \<Longrightarrow>
       snd (case_click w (Some session) args s) =
         (case template w selector of
            Inl e' \<Rightarrow> Inl e'
          | Inr t \<Rightarrow>
              (case message e of
                 Inl e' \<Rightarrow> Inl e'
               | Inr m \<Rightarrow>
                   Inr (text_result (js ''Failed to click '' @ t @ js '': '' @ m) True)))"
    "get_prop args ''selector'' = Inr selector \<Longrightarrow>
       page_waitForSelector w p selector = Inl e \<or>
       page_waitForSelector w p selector = Inr () \<and>
         (\<exists>v. get_prop args ''value'' = Inr v \<and> page_type w p selector v = Inl e) \<Longrightarrow>
       snd (case_fill w (Some session) args s) =
         (case template w selector of
            Inl e' \<Rightarrow> Inl e'
          | Inr t \<Rightarrow>
              (case message e of
                 Inl e' \<Rightarrow> Inl e'
               | Inr m \<Rightarrow>
                   Inr (text_result (js ''Failed to fill '' @ t @ js '': '' @ m) True)))"
    "page_innerText w p = Inl e \<Longrightarrow>
       snd (case_get_text w (Some session) s) =
         (case message e of
            Inl e' \<Rightarrow> Inl e'
          | Inr m \<Rightarrow> Inr (text_result (js ''Failed to extract content: '' @ m) True))"
  using assms
  by (auto simp: case_navigate_def case_evaluate_def case_get_current_url_def
      case_screenshot_def case_click_def case_fill_def case_get_text_def
      session_page_def io_defs split: sum.splits)

section \<open>Tool handler: every failure becomes an error envelope\<close>



section \<open>Session holder: a held session\<close>

text \<open>
  C2.  While a session is held, \<open>ensureBrowserSession\<close> makes one call, the read of the
  document title on the held page.  If that call returns, the held session is the result
  and the state changes in its trace only.  If it rejects, the same error is thrown to
  the caller; a held session whose page is \<open>undefined\<close> throws the engine's error for the
  member lookup instead, without any call.  In every case the slot still holds the same
  session afterwards.
\<close>

theorem ensureBrowserSession_held_probe:
  assumes "defaultBrowserSession s = Some held"
  shows "(\<forall>p. page held = Some p \<longrightarrow> page_title w p = Inr () \<longrightarrow>
            ensureBrowserSession w s = (s\<lparr>trace := trace s @ [EvTitle p]\<rparr>, Inr held)) \<and>
         (\<forall>p e. page held = Some p \<longrightarrow> page_title w p = Inl e \<longrightarrow>
            ensureBrowserSession w s = (s\<lparr>trace := trace s @ [EvTitle p]\<rparr>, Inl e)) \<and>
         (page held = None \<longrightarrow>
            ensureBrowserSession w s = (s, Inl (cannot_read ''undefined'' ''evaluate''))) \<and>
         defaultBrowserSession (fst (ensureBrowserSession w s)) = Some held"
  using assms by (auto simp: ensure_held split: sum.splits option.splits)

theorem ensureBrowserSession_held_probe_witness:
  "defaultBrowserSession held_state = Some held_session \<and> page held_session = Some 3 \<and>
   page_title live_world 3 = Inr () \<and>
   ensureBrowserSession live_world held_state =
     (held_state\<lparr>trace := trace held_state @ [EvTitle 3]\<rparr>, Inr held_session) \<and>
   page_title closed_world 3 = Inl (ErrorObj (js ''Target closed'')) \<and>
   ensureBrowserSession closed_world held_state =
     (held_state\<lparr>trace := trace held_state @ [EvTitle 3]\<rparr>,
      Inl (ErrorObj (js ''Target closed''))) \<and>
   defaultBrowserSession (fst (ensureBrowserSession closed_world held_state)) =
     Some held_session"
proof -
  have h1: "defaultBrowserSession held_state = Some held_session"
    by (simp add: held_state_def)
  have h2: "page held_session = Some 3"
    by (simp add: held_session_def)
  have t1: "page_title live_world 3 = Inr ()"
    by (simp add: live_world_def)
  have t2: "page_title closed_world 3 = Inl (ErrorObj (js ''Target closed''))"
    by (simp add: closed_world_def live_world_def)
  show ?thesis
    using ensureBrowserSession_held_probe [OF h1, of live_world]
      ensureBrowserSession_held_probe [OF h1, of closed_world] h1 h2 t1 t2
    by simp
qed

section \<open>Session holder: what reaches the slot\<close>

text \<open>
  Across any tool call a held session is never replaced and the registry of browsers is
  left as it was; the slot changes only from empty to the session built from the results
  of a round-trip in which the endpoint fetch, the reading of its payload, the browser
  connect and the page listing all returned; when session creation throws, the slot
  stays empty; and the registry holds exactly the session in the slot.  The page of the
  stored session is the first listed page, which is \<open>undefined\<close> when no page is listed.
\<close>

lemma slot_changes_after_round_trip:
  assumes "handleToolCall w name args s = (s', result)"
  shows "(\<forall>held. defaultBrowserSession s = Some held \<longrightarrow>
            defaultBrowserSession s' = Some held \<and> browsers s' = browsers s) \<and>
         (defaultBrowserSession s' \<noteq> defaultBrowserSession s \<longrightarrow>
            (\<exists>response data url b ps.
               fetch w (start_url (env_SESSION_ID w) (env_API_KEY w)) = Inr response \<and>
               ok response \<and> body_json response = Inr data \<and>
               extract_browserUrl w data = Inr url \<and>
               puppeteer_connect w url = Inr b \<and> browser_pages w b = Inr ps \<and>
               defaultBrowserSession s' = Some \<lparr>browser = b, page = first_page ps\<rparr> \<and>
               browsers s' = Map_set (=) (browsers s) (env_SESSION_ID w)
                               \<lparr>browser = b, page = first_page ps\<rparr>)) \<and>
         (\<forall>s1 e. defaultBrowserSession s = None \<longrightarrow>
            createNewBrowserSession w (env_SESSION_ID w) (env_API_KEY w) s = (s1, Inl e) \<longrightarrow>
            defaultBrowserSession s' = None \<and> browsers s' = browsers s) \<and>
         (map snd (browsers s) = (case defaultBrowserSession s of None \<Rightarrow> [] | Some x \<Rightarrow> [x]) \<longrightarrow>
          map snd (browsers s') = (case defaultBrowserSession s' of None \<Rightarrow> [] | Some x \<Rightarrow> [x]))"
proof -
  from handleToolCall_frame [OF assms] obtain s2 r where
    t: "handleToolCall_try w name args s = (s2, r)" and
    f: "defaultBrowserSession s' = defaultBrowserSession s2" "browsers s' = browsers s2"
    by blast
  have held: "\<forall>held. defaultBrowserSession s = Some held \<longrightarrow>
            defaultBrowserSession s' = Some held \<and> browsers s' = browsers s"
    using held_call(1,2) [OF _ assms] by blast
  have skip: "name = js ''cloudbrowser_create_session'' \<Longrightarrow>
      defaultBrowserSession s' = defaultBrowserSession s \<and> browsers s' = browsers s"
    using t f by (simp add: handleToolCall_try_eq dispatch_create_session)
  obtain s1 r1 where e: "ensureBrowserSession w s = (s1, r1)"
    by (cases "ensureBrowserSession w s")
  have after: "name \<noteq> js ''cloudbrowser_create_session'' \<Longrightarrow>
      defaultBrowserSession s' = defaultBrowserSession s1 \<and> browsers s' = browsers s1"
  proof (cases r1)
    case (Inl err)
    assume "name \<noteq> js ''cloudbrowser_create_session''"
    with Inl t e f show ?thesis by (simp add: handleToolCall_try_eq)
  next
    case (Inr session)
    assume "name \<noteq> js ''cloudbrowser_create_session''"
    with Inr t e have "dispatch w name (Some session) args s1 = (s2, r)"
      by (simp add: handleToolCall_try_eq)
    from dispatch_frame(1,2) [OF this] f show ?thesis by simp
  qed
  have changed: "defaultBrowserSession s' \<noteq> defaultBrowserSession s \<longrightarrow>
            (\<exists>response data url b ps.
               fetch w (start_url (env_SESSION_ID w) (env_API_KEY w)) = Inr response \<and>
               ok response \<and> body_json response = Inr data \<and>
               extract_browserUrl w data = Inr url \<and>
               puppeteer_connect w url = Inr b \<and> browser_pages w b = Inr ps \<and>
               defaultBrowserSession s' = Some \<lparr>browser = b, page = first_page ps\<rparr> \<and>
               browsers s' = Map_set (=) (browsers s) (env_SESSION_ID w)
                               \<lparr>browser = b, page = first_page ps\<rparr>)"
  proof
    assume ch: "defaultBrowserSession s' \<noteq> defaultBrowserSession s"
    with skip have n: "name \<noteq> js ''cloudbrowser_create_session''" by blast
    from ch held have none: "defaultBrowserSession s = None" by (cases "defaultBrowserSession s") auto
    from after [OF n] have a: "defaultBrowserSession s' = defaultBrowserSession s1"
      "browsers s' = browsers s1" by simp_all
    show "\<exists>response data url b ps.
               fetch w (start_url (env_SESSION_ID w) (env_API_KEY w)) = Inr response \<and>
               ok response \<and> body_json response = Inr data \<and>
               extract_browserUrl w data = Inr url \<and>
               puppeteer_connect w url = Inr b \<and> browser_pages w b = Inr ps \<and>
               defaultBrowserSession s' = Some \<lparr>browser = b, page = first_page ps\<rparr> \<and>
               browsers s' = Map_set (=) (browsers s) (env_SESSION_ID w)
                               \<lparr>browser = b, page = first_page ps\<rparr>"
    proof (cases r1)
      case (Inl err)
      from ensure_frame(4) [OF e none Inl] a ch none show ?thesis by simp
    next
      case (Inr created)
      from ensure_created [OF e [unfolded Inr] none] a show ?thesis by auto
    qed
  qed
  have failed: "\<forall>s1 e. defaultBrowserSession s = None \<longrightarrow>
            createNewBrowserSession w (env_SESSION_ID w) (env_API_KEY w) s = (s1, Inl e) \<longrightarrow>
            defaultBrowserSession s' = None \<and> browsers s' = browsers s"
  proof (intro allI impI)
    fix sa ea
    assume none: "defaultBrowserSession s = None"
      and c: "createNewBrowserSession w (env_SESSION_ID w) (env_API_KEY w) s = (sa, Inl ea)"
    show "defaultBrowserSession s' = None \<and> browsers s' = browsers s"
    proof (cases "name = js ''cloudbrowser_create_session''")
      case True
      with skip none show ?thesis by simp
    next
      case False
      from e none c have "r1 = Inl ea" by (simp add: ensure_none)
      from ensure_frame(4) [OF e none this] after [OF False] show ?thesis by simp
    qed
  qed
  have inv: "map snd (browsers s) = (case defaultBrowserSession s of None \<Rightarrow> [] | Some x \<Rightarrow> [x]) \<longrightarrow>
          map snd (browsers s') = (case defaultBrowserSession s' of None \<Rightarrow> [] | Some x \<Rightarrow> [x])"
  proof
    assume i: "map snd (browsers s) = (case defaultBrowserSession s of None \<Rightarrow> [] | Some x \<Rightarrow> [x])"
    show "map snd (browsers s') = (case defaultBrowserSession s' of None \<Rightarrow> [] | Some x \<Rightarrow> [x])"
    proof (cases "defaultBrowserSession s' = defaultBrowserSession s")
      case False
      with changed i held show ?thesis
        by (cases "defaultBrowserSession s") auto
    next
      case True
      show ?thesis
      proof (cases "defaultBrowserSession s")
        case (Some h)
        with held i show ?thesis by simp
      next
        case None
        have "browsers s' = browsers s"
        proof (cases "name = js ''cloudbrowser_create_session''")
          case True
          with skip show ?thesis by simp
        next
          case False
          show ?thesis
          proof (cases r1)
            case (Inl err)
            from ensure_frame(4) [OF e None Inl] after [OF False] show ?thesis by simp
          next
            case (Inr created)
            from ensure_created [OF e [unfolded Inr] None] after [OF False] True None
            show ?thesis by simp
          qed
        qed
        with True None i show ?thesis by simp
      qed
    qed
  qed
  from held changed failed inv show ?thesis by blast
qed

text \<open>
  C3.  When the browser lists no page, page selection yields \<open>undefined\<close> and nothing
  stops the write: the first call stores a session without a page in the slot and in
  the registry, and the tool handler receives it and fails on its page.  Every later
  call finds the slot occupied, fails at the probe in the same way, and makes no further
  provisioning request, so the partial session stays.
\<close>

theorem session_without_page_stored:
  "browser_pages pageless_world 7 = Inr [] \<and>
   defaultBrowserSession
     (fst (handleToolCall pageless_world (js ''cloudbrowser_navigate'') navigate_args
             initial_state)) = Some \<lparr>browser = 7, page = None\<rparr> \<and>
   browsers
     (fst (handleToolCall pageless_world (js ''cloudbrowser_navigate'') navigate_args
             initial_state)) = [(Some (js ''s1''), \<lparr>browser = 7, page = None\<rparr>)] \<and>
   snd (handleToolCall pageless_world (js ''cloudbrowser_navigate'') navigate_args
          initial_state) =
     text_result
       (js ''Failed to handle tool call: Cannot read properties of undefined (reading '' @
        [apostrophe] @ js ''goto'' @ [apostrophe] @ js '')'') True \<and>
   snd (handleToolCall live_world (js ''cloudbrowser_navigate'') navigate_args
          (fst (handleToolCall pageless_world (js ''cloudbrowser_navigate'') navigate_args
                  initial_state))) =
     text_result
       (js ''Failed to handle tool call: Cannot read properties of undefined (reading '' @
        [apostrophe] @ js ''evaluate'' @ [apostrophe] @ js '')'') True \<and>
   defaultBrowserSession
     (run_calls [(pageless_world, js ''cloudbrowser_navigate'', navigate_args),
                 (live_world, js ''cloudbrowser_navigate'', navigate_args),
                 (live_world, js ''cloudbrowser_get_text'', JObj [])]
        initial_state) = Some \<lparr>browser = 7, page = None\<rparr> \<and>
   provisioning_calls
     (trace (run_calls [(pageless_world, js ''cloudbrowser_navigate'', navigate_args),
                        (live_world, js ''cloudbrowser_navigate'', navigate_args),
                        (live_world, js ''cloudbrowser_get_text'', JObj [])]
               initial_state)) = 1"
  by code_simp

section \<open>Tool registry\<close>

text \<open>
  C4.  \<open>list_tools\<close> returns the seven tools, each with a description that is not empty.
  For navigate, evaluate, click, fill and get_text the required list is the list of
  declared parameters; get_current_url declares no parameter and no required list.  The
  screenshot tool declares the parameter \<open>name\<close> and has no required list at all, so that
  a call without a name is accepted and stored under the key \<open>undefined\<close>.
\<close>

theorem list_tools_declarations:
  "map (\<lambda>t. (tool_name t, map fst (properties (inputSchema t)), required (inputSchema t)))
     list_tools =
     [(''cloudbrowser_navigate'', [''url''], Some [''url'']),
      (''cloudbrowser_evaluate'', [''script''], Some [''script'']),
      (''cloudbrowser_get_current_url'', [], None),
      (''cloudbrowser_screenshot'', [''name''], None),
      (''cloudbrowser_click'', [''selector''], Some [''selector'']),
      (''cloudbrowser_fill'', [''selector'', ''value''], Some [''selector'', ''value'']),
      (''cloudbrowser_get_text'', [], Some [])] \<and>
   list_all (\<lambda>t. description t \<noteq> []) list_tools \<and>
   screenshots (fst (handleToolCall live_world (js ''cloudbrowser_screenshot'') (JObj [])
                       held_state)) = [(JUndefined, js ''iVBORw0KGgo='')]"
  by code_simp

section \<open>Text extraction\<close>




section \<open>Screenshots through the resource catalog\<close>

text \<open>
  C6, as the code has it.  After a screenshot call with name \<open>a\<close> that returns a result
  without error, the result carries the captured blob as its image, and reading
  \<open>screenshot://a\<close> returns one entry with that same blob and MIME type
  \<open>image/png\<close>.  Listing the resources yields an entry with uri
  \<open>screenshot://a\<close>, MIME type \<open>image/png\<close> and name \<open>Screenshot: a\<close> when every
  name stored before renders as text, as every string does.
\<close>

theorem screenshot_round_trip:
  assumes "handleToolCall w (js ''cloudbrowser_screenshot'') args s = (s', result)"
    and "\<not> isError result"
    and "get_prop args ''name'' = Inr (JStr (js ''a''))"
  shows "\<exists>s1 session p screenshot.
           ensureBrowserSession w s = (s1, Inr session) \<and> page session = Some p \<and>
           page_screenshot w p = Inr screenshot \<and>
           result = \<lparr>content = [TextContent (js ''Screenshot taken''),
                                 ImageContent screenshot (js ''image/png'')],
                      isError = False\<rparr> \<and>
           read_resource s' (js ''screenshot://a'') =
             Inr [\<lparr>contents_uri = js ''screenshot://a'', contents_mimeType = js ''image/png'',
                   blob = screenshot\<rparr>] \<and>
           (\<forall>w'. (\<forall>k \<in> set (map fst (screenshots s)). \<exists>t. template w' k = Inr t) \<longrightarrow>
                 (\<exists>rs. list_resources w' s' = Inr rs \<and>
                       \<lparr>uri = js ''screenshot://a'', mimeType = js ''image/png'',
                        resource_name = js ''Screenshot: a''\<rparr> \<in> set rs))"
proof -
  from screenshot_call_success [OF assms(1,2)] assms(3) obtain s1 session p screenshot where
    c: "ensureBrowserSession w s = (s1, Inr session)" "page session = Some p"
       "page_screenshot w p = Inr screenshot" "screenshot \<noteq> []"
       "screenshots s' = Map_set same_value_zero (screenshots s) (JStr (js ''a'')) screenshot"
       "result = \<lparr>content = [TextContent (js ''Screenshot taken''),
                               ImageContent screenshot (js ''image/png'')],
                    isError = False\<rparr>"
    by auto
  have u: "js ''screenshot://a'' = js ''screenshot://'' @ js ''a''"
    "js ''Screenshot: a'' = js ''Screenshot: '' @ js ''a''"
    by (simp_all add: js_def)
  have free: "\<not> str_includes (js ''a'') (js ''://'')"
    by (simp add: js_def)
  have read: "read_resource s' (js ''screenshot://a'') =
             Inr [\<lparr>contents_uri = js ''screenshot://a'', contents_mimeType = js ''image/png'',
                   blob = screenshot\<rparr>]"
    unfolding u read_resource_eq first_segment_free [OF free]
    using c(4) by (simp add: c(5) Map_get_Map_set_JStr)
  have listed: "\<forall>w'. (\<forall>k \<in> set (map fst (screenshots s)). \<exists>t. template w' k = Inr t) \<longrightarrow>
                 (\<exists>rs. list_resources w' s' = Inr rs \<and>
                       \<lparr>uri = js ''screenshot://a'', mimeType = js ''image/png'',
                        resource_name = js ''Screenshot: a''\<rparr> \<in> set rs)"
  proof (intro allI impI)
    fix w'
    assume old: "\<forall>k \<in> set (map fst (screenshots s)). \<exists>t. template w' k = Inr t"
    have t: "template w' (JStr (js ''a'')) = Inr (js ''a'')"
      by (simp add: template_def)
    have keys: "set (map fst (screenshots s')) = insert (JStr (js ''a'')) (set (map fst (screenshots s)))"
      by (auto simp: c(5) keys_Map_set_JStr)
    with old t have "\<forall>k \<in> set (map fst (screenshots s')). \<exists>t. template w' k = Inr t"
      by auto
    from resources_of_total [OF this] obtain rs where
      rs: "resources_of w' (map fst (screenshots s')) = Inr rs"
          "\<forall>k \<in> set (map fst (screenshots s')). \<forall>t. template w' k = Inr t \<longrightarrow>
              \<lparr>uri = js ''screenshot://'' @ t, mimeType = js ''image/png'',
               resource_name = js ''Screenshot: '' @ t\<rparr> \<in> set rs"
      by blast
    from keys have "JStr (js ''a'') \<in> set (map fst (screenshots s'))"
      by simp
    with rs(2) t have
      "\<lparr>uri = js ''screenshot://'' @ js ''a'', mimeType = js ''image/png'',
        resource_name = js ''Screenshot: '' @ js ''a''\<rparr> \<in> set rs"
      by blast
    with rs(1) show "\<exists>rs. list_resources w' s' = Inr rs \<and>
                       \<lparr>uri = js ''screenshot://a'', mimeType = js ''image/png'',
                        resource_name = js ''Screenshot: a''\<rparr> \<in> set rs"
      unfolding u by (simp add: list_resources_def)
  qed
  from c(1-3,6) read listed show ?thesis
    by blast
qed

theorem screenshot_round_trip_witness:
  "\<not> isError (snd (handleToolCall live_world (js ''cloudbrowser_screenshot'')
                     (name_args (js ''a'')) held_state)) \<and>
   get_prop (name_args (js ''a'')) ''name'' = Inr (JStr (js ''a'')) \<and>
   page_screenshot live_world 3 = Inr (js ''iVBORw0KGgo='') \<and>
   read_resource
     (fst (handleToolCall live_world (js ''cloudbrowser_screenshot'') (name_args (js ''a''))
             held_state))
     (js ''screenshot://a'') =
     Inr [\<lparr>contents_uri = js ''screenshot://a'', contents_mimeType = js ''image/png'',
           blob = js ''iVBORw0KGgo=''\<rparr>] \<and>
   (\<exists>rs. list_resources live_world
            (fst (handleToolCall live_world (js ''cloudbrowser_screenshot'')
                    (name_args (js ''a'')) held_state)) = Inr rs \<and>
         \<lparr>uri = js ''screenshot://a'', mimeType = js ''image/png'',
          resource_name = js ''Screenshot: a''\<rparr> \<in> set rs)"
proof -
  let ?s' = "held_state\<lparr>screenshots := [(JStr (js ''a''), js ''iVBORw0KGgo='')],
                 trace := [EvTitle 3, EvScreenshot 3,
                           EvNotification (js ''notifications/resources/list_changed'')]\<rparr>"
  let ?r = "\<lparr>content = [TextContent (js ''Screenshot taken''),
                  ImageContent (js ''iVBORw0KGgo='') (js ''image/png'')],
       isError = False\<rparr>"
  have ne: "\<not> isError ?r"
    by simp
  have nm: "get_prop (name_args (js ''a'')) ''name'' = Inr (JStr (js ''a''))"
    by (simp add: name_args_def get_prop_def)
  have shot: "page_screenshot live_world 3 = Inr (js ''iVBORw0KGgo='')"
    by (simp add: live_world_def)
  have empty: "\<forall>k \<in> set (map fst (screenshots held_state)). \<exists>t. template live_world k = Inr t"
    by (simp add: held_state_def initial_state_def)
  from screenshot_round_trip [OF screenshot_a_run ne nm] obtain screenshot where
    r: "?r = \<lparr>content = [TextContent (js ''Screenshot taken''),
                        ImageContent screenshot (js ''image/png'')],
              isError = False\<rparr>"
    and read: "read_resource ?s' (js ''screenshot://a'') =
             Inr [\<lparr>contents_uri = js ''screenshot://a'', contents_mimeType = js ''image/png'',
                   blob = screenshot\<rparr>]"
    and listed: "\<forall>w'. (\<forall>k \<in> set (map fst (screenshots held_state)). \<exists>t. template w' k = Inr t) \<longrightarrow>
                 (\<exists>rs. list_resources w' ?s' = Inr rs \<and>
                       \<lparr>uri = js ''screenshot://a'', mimeType = js ''image/png'',
                        resource_name = js ''Screenshot: a''\<rparr> \<in> set rs)"
    by blast
  from r have "screenshot = js ''iVBORw0KGgo=''"
    by simp
  with read have a: "read_resource ?s' (js ''screenshot://a'') =
             Inr [\<lparr>contents_uri = js ''screenshot://a'', contents_mimeType = js ''image/png'',
                   blob = js ''iVBORw0KGgo=''\<rparr>]"
    by simp
  from listed empty have b: "\<exists>rs. list_resources live_world ?s' = Inr rs \<and>
                       \<lparr>uri = js ''screenshot://a'', mimeType = js ''image/png'',
                        resource_name = js ''Screenshot: a''\<rparr> \<in> set rs"
    by blast
  from ne nm shot a b show ?thesis
    by (simp add: screenshot_a_run)
qed

text \<open>
  C6 as stated fails for the listing: names are stored as they arrive, so after a
  screenshot stored under an object whose conversion to a string throws, a successful
  screenshot with name \<open>a\<close> is followed by a listing that throws and yields no entry.
\<close>

theorem screenshot_listing_poisoned_counterexample:
  "\<not> isError
      (snd (handleToolCall poison_world (js ''cloudbrowser_screenshot'')
              (JObj [(js ''name'', poison_key)]) initial_state)) \<and>
   \<not> isError
      (snd (handleToolCall poison_world (js ''cloudbrowser_screenshot'') (name_args (js ''a''))
              (fst (handleToolCall poison_world (js ''cloudbrowser_screenshot'')
                      (JObj [(js ''name'', poison_key)]) initial_state)))) \<and>
   map fst (screenshots poisoned_then_a) = [poison_key, JStr (js ''a'')] \<and>
   template poison_world poison_key =
     Inl (ErrorObj (js ''Cannot convert object to primitive value'')) \<and>
   list_resources poison_world poisoned_then_a =
     Inl (ErrorObj (js ''Cannot convert object to primitive value''))"
  by code_simp

section \<open>Remote session provisioner\<close>

text \<open>
  C7, as the code has it.  \<open>getBrowserUrl\<close> returns a value exactly when the fetch
  returns a response with a status from 200 to 299 whose payload parses, has
  \<open>code === 200\<close> and has a truthy \<open>data.browserUrl\<close>, and it returns that
  value; a string is truthy exactly when it is not empty.  A rejected fetch and a
  payload that does not parse are rethrown as they are; another status throws
  \<open>HTTP error! status: n\<close>; a payload other than \<open>null\<close> without code 200 or
  without a truthy \<open>data.browserUrl\<close> throws an error carrying the payload; a \<open>null\<close>
  payload throws the engine's error for reading \<open>code\<close>.  In every case exactly one
  request is made.
\<close>

theorem getBrowserUrl_result:
  "(snd (getBrowserUrl w sessionId apiKey s) = Inr url \<longleftrightarrow>
      (\<exists>response data.
         fetch w (start_url sessionId apiKey) = Inr response \<and>
         200 \<le> status response \<and> status response \<le> 299 \<and>
         body_json response = Inr data \<and>
         get_prop data ''code'' = Inr (JNum 200) \<and>
         (\<exists>d. get_prop data ''data'' = Inr d \<and> get_prop d ''browserUrl'' = Inr url) \<and>
         truthy url)) \<and>
   (truthy (JStr u) \<longleftrightarrow> u \<noteq> []) \<and>
   (\<forall>e. fetch w (start_url sessionId apiKey) = Inl e \<longrightarrow>
      snd (getBrowserUrl w sessionId apiKey s) = Inl e) \<and>
   (\<forall>response. fetch w (start_url sessionId apiKey) = Inr response \<longrightarrow>
      \<not> (200 \<le> status response \<and> status response \<le> 299) \<longrightarrow>
      snd (getBrowserUrl w sessionId apiKey s) =
        Inl (ErrorObj (js ''HTTP error! status: '' @ js (show_nat (status response))))) \<and>
   (\<forall>response e. fetch w (start_url sessionId apiKey) = Inr response \<longrightarrow> ok response \<longrightarrow>
      body_json response = Inl e \<longrightarrow> snd (getBrowserUrl w sessionId apiKey s) = Inl e) \<and>
   (\<forall>response data. fetch w (start_url sessionId apiKey) = Inr response \<longrightarrow> ok response \<longrightarrow>
      body_json response = Inr data \<longrightarrow> data \<noteq> JNull \<longrightarrow> data \<noteq> JUndefined \<longrightarrow>
      \<not> (get_prop data ''code'' = Inr (JNum 200) \<and>
         (\<exists>d v. get_prop data ''data'' = Inr d \<and> get_prop d ''browserUrl'' = Inr v \<and> truthy v)) \<longrightarrow>
      snd (getBrowserUrl w sessionId apiKey s) =
        Inl (ErrorObj (js ''Failed to get browserUrl. Response: '' @ JSON_stringify w data))) \<and>
   (\<forall>response. fetch w (start_url sessionId apiKey) = Inr response \<longrightarrow> ok response \<longrightarrow>
      body_json response = Inr JNull \<longrightarrow>
      snd (getBrowserUrl w sessionId apiKey s) = Inl (cannot_read ''null'' ''code'')) \<and>
   provisioning_calls (trace (fst (getBrowserUrl w sessionId apiKey s))) =
     provisioning_calls (trace s) + 1"
proof -
  have returns: "snd (getBrowserUrl w sessionId apiKey s) = Inr url \<longleftrightarrow>
      (\<exists>response data.
         fetch w (start_url sessionId apiKey) = Inr response \<and>
         200 \<le> status response \<and> status response \<le> 299 \<and>
         body_json response = Inr data \<and>
         get_prop data ''code'' = Inr (JNum 200) \<and>
         (\<exists>d. get_prop data ''data'' = Inr d \<and> get_prop d ''browserUrl'' = Inr url) \<and>
         truthy url)"
    by (auto simp: getBrowserUrl_snd extract_browserUrl_Inr ok_def split: sum.splits)
  have str: "truthy (JStr u) \<longleftrightarrow> u \<noteq> []"
    by (simp add: truthy_def)
  have transport: "\<forall>e. fetch w (start_url sessionId apiKey) = Inl e \<longrightarrow>
      snd (getBrowserUrl w sessionId apiKey s) = Inl e"
    by (simp add: getBrowserUrl_snd)
  have status: "\<forall>response. fetch w (start_url sessionId apiKey) = Inr response \<longrightarrow>
      \<not> (200 \<le> status response \<and> status response \<le> 299) \<longrightarrow>
      snd (getBrowserUrl w sessionId apiKey s) =
        Inl (ErrorObj (js ''HTTP error! status: '' @ js (show_nat (status response))))"
    by (simp add: getBrowserUrl_snd ok_def)
  have parse: "\<forall>response e. fetch w (start_url sessionId apiKey) = Inr response \<longrightarrow>
      ok response \<longrightarrow> body_json response = Inl e \<longrightarrow>
      snd (getBrowserUrl w sessionId apiKey s) = Inl e"
    by (simp add: getBrowserUrl_snd)
  have shape: "\<forall>response data. fetch w (start_url sessionId apiKey) = Inr response \<longrightarrow>
      ok response \<longrightarrow> body_json response = Inr data \<longrightarrow> data \<noteq> JNull \<longrightarrow>
      data \<noteq> JUndefined \<longrightarrow>
      \<not> (get_prop data ''code'' = Inr (JNum 200) \<and>
         (\<exists>d v. get_prop data ''data'' = Inr d \<and> get_prop d ''browserUrl'' = Inr v \<and> truthy v)) \<longrightarrow>
      snd (getBrowserUrl w sessionId apiKey s) =
        Inl (ErrorObj (js ''Failed to get browserUrl. Response: '' @ JSON_stringify w data))"
  proof (intro allI impI)
    fix response data
    assume a: "fetch w (start_url sessionId apiKey) = Inr response" "ok response"
      "body_json response = Inr data" "data \<noteq> JNull" "data \<noteq> JUndefined"
      and n: "\<not> (get_prop data ''code'' = Inr (JNum 200) \<and>
         (\<exists>d v. get_prop data ''data'' = Inr d \<and> get_prop d ''browserUrl'' = Inr v \<and> truthy v))"
    from n have "\<And>v. extract_browserUrl w data \<noteq> Inr v"
      by (auto simp: extract_browserUrl_Inr)
    then obtain e where e: "extract_browserUrl w data = Inl e"
      by (cases "extract_browserUrl w data") auto
    from extract_browserUrl_Inl [OF a(4,5) e] e a(1-3)
    show "snd (getBrowserUrl w sessionId apiKey s) =
        Inl (ErrorObj (js ''Failed to get browserUrl. Response: '' @ JSON_stringify w data))"
      by (simp add: getBrowserUrl_snd failed_to_get_def)
  qed
  have null: "\<forall>response. fetch w (start_url sessionId apiKey) = Inr response \<longrightarrow>
      ok response \<longrightarrow> body_json response = Inr JNull \<longrightarrow>
      snd (getBrowserUrl w sessionId apiKey s) = Inl (cannot_read ''null'' ''code'')"
    by (simp add: getBrowserUrl_snd extract_browserUrl_def get_prop_def)
  have once: "provisioning_calls (trace (fst (getBrowserUrl w sessionId apiKey s))) =
     provisioning_calls (trace s) + 1"
    using getBrowserUrl_frame(4) [of w sessionId apiKey s]
    by (cases "getBrowserUrl w sessionId apiKey s") simp
  from returns str transport status parse shape null once show ?thesis
    by blast
qed

theorem getBrowserUrl_result_witness:
  "snd (getBrowserUrl live_world (Some (js ''s1'')) (Some (js ''k1'')) initial_state) =
     Inr (JStr (js ''ws://host/devtools'')) \<and>
   fetch unreachable_world (start_url (Some (js ''s1'')) (Some (js ''k1''))) =
     Inl (ErrorObj (js ''fetch failed'')) \<and>
   snd (getBrowserUrl unreachable_world (Some (js ''s1'')) (Some (js ''k1'')) initial_state) =
     Inl (ErrorObj (js ''fetch failed'')) \<and>
   fetch not_found_world (start_url (Some (js ''s1'')) (Some (js ''k1''))) =
     Inr \<lparr>status = 404, body_json = Inr JNull\<rparr> \<and>
   snd (getBrowserUrl not_found_world (Some (js ''s1'')) (Some (js ''k1'')) initial_state) =
     Inl (ErrorObj (js ''HTTP error! status: 404'')) \<and>
   snd (getBrowserUrl empty_url_world (Some (js ''s1'')) (Some (js ''k1'')) initial_state) =
     Inl (ErrorObj (js ''Failed to get browserUrl. Response: '' @
                    JSON_stringify empty_url_world empty_url_payload)) \<and>
   provisioning_calls
     (trace (fst (getBrowserUrl live_world (Some (js ''s1'')) (Some (js ''k1''))
                    initial_state))) = 1"
proof -
  let ?u = "start_url (Some (js ''s1'')) (Some (js ''k1''))"
  let ?url = "JStr (js ''ws://host/devtools'')"
  note live = getBrowserUrl_result
    [of live_world "Some (js ''s1'')" "Some (js ''k1'')" initial_state ?url "js ''ws://host/devtools''"]
  note dead = getBrowserUrl_result
    [of unreachable_world "Some (js ''s1'')" "Some (js ''k1'')" initial_state]
  note missing = getBrowserUrl_result
    [of not_found_world "Some (js ''s1'')" "Some (js ''k1'')" initial_state]
  note empty = getBrowserUrl_result
    [of empty_url_world "Some (js ''s1'')" "Some (js ''k1'')" initial_state]
  have f1: "fetch live_world ?u = Inr ok_response"
    by (simp add: live_world_def)
  have p1: "200 \<le> status ok_response" "status ok_response \<le> 299"
    "body_json ok_response =
       Inr (JObj [(js ''code'', JNum 200), (js ''data'', JObj [(js ''browserUrl'', ?url)])])"
    by (simp_all add: ok_response_def)
  have p2: "get_prop (JObj [(js ''code'', JNum 200), (js ''data'', JObj [(js ''browserUrl'', ?url)])])
              ''code'' = Inr (JNum 200)"
    "get_prop (JObj [(js ''code'', JNum 200), (js ''data'', JObj [(js ''browserUrl'', ?url)])])
              ''data'' = Inr (JObj [(js ''browserUrl'', ?url)])"
    "get_prop (JObj [(js ''browserUrl'', ?url)]) ''browserUrl'' = Inr ?url"
    by (simp_all add: get_prop_def js_def)
  have p3: "truthy ?url"
    using live by (simp add: js_def)
  from live f1 p1 p2 p3 have a:
    "snd (getBrowserUrl live_world (Some (js ''s1'')) (Some (js ''k1'')) initial_state) = Inr ?url"
    by blast
  have f2: "fetch unreachable_world ?u = Inl (ErrorObj (js ''fetch failed''))"
    by (simp add: unreachable_world_def live_world_def)
  from dead f2 have b:
    "snd (getBrowserUrl unreachable_world (Some (js ''s1'')) (Some (js ''k1'')) initial_state) =
       Inl (ErrorObj (js ''fetch failed''))"
    by blast
  have f3: "fetch not_found_world ?u = Inr \<lparr>status = 404, body_json = Inr JNull\<rparr>"
    by (simp add: not_found_world_def live_world_def)
  have n3: "\<not> (200 \<le> status \<lparr>status = 404, body_json = Inr JNull\<rparr> \<and>
               status \<lparr>status = 404, body_json = Inr JNull\<rparr> \<le> 299)"
    by simp
  have s3: "js ''HTTP error! status: '' @ js (show_nat (status \<lparr>status = 404, body_json = Inr JNull\<rparr>)) =
            js ''HTTP error! status: 404''"
    by code_simp
  from missing f3 n3 have
    "snd (getBrowserUrl not_found_world (Some (js ''s1'')) (Some (js ''k1'')) initial_state) =
       Inl (ErrorObj (js ''HTTP error! status: '' @
                      js (show_nat (status \<lparr>status = 404, body_json = Inr JNull\<rparr>))))"
    by blast
  with s3 have c:
    "snd (getBrowserUrl not_found_world (Some (js ''s1'')) (Some (js ''k1'')) initial_state) =
       Inl (ErrorObj (js ''HTTP error! status: 404''))"
    by simp
  have f4: "fetch empty_url_world ?u = Inr \<lparr>status = 200, body_json = Inr empty_url_payload\<rparr>"
    by (simp add: empty_url_world_def live_world_def)
  have p4: "ok \<lparr>status = 200, body_json = Inr empty_url_payload\<rparr>"
    "body_json \<lparr>status = 200, body_json = Inr empty_url_payload\<rparr> = Inr empty_url_payload"
    "empty_url_payload \<noteq> JNull" "empty_url_payload \<noteq> JUndefined"
    by (simp_all add: ok_def empty_url_payload_def)
  have n4: "\<not> (get_prop empty_url_payload ''code'' = Inr (JNum 200) \<and>
         (\<exists>d v. get_prop empty_url_payload ''data'' = Inr d \<and>
                get_prop d ''browserUrl'' = Inr v \<and> truthy v))"
    by (auto simp: empty_url_payload_def get_prop_def truthy_def js_def)
  from empty f4 p4 n4 have d:
    "snd (getBrowserUrl empty_url_world (Some (js ''s1'')) (Some (js ''k1'')) initial_state) =
       Inl (ErrorObj (js ''Failed to get browserUrl. Response: '' @
                      JSON_stringify empty_url_world empty_url_payload))"
    by blast
  have zero: "provisioning_calls (trace initial_state) = 0"
    by (simp add: initial_state_def provisioning_calls_def)
  with live have e:
    "provisioning_calls
       (trace (fst (getBrowserUrl live_world (Some (js ''s1'')) (Some (js ''k1''))
                      initial_state))) = 1"
    by simp
  from a b c d e f2 f3 show ?thesis
    by blast
qed

text \<open>
  C7 as stated fails for the payload \<open>{code: 200, data: {browserUrl: ""}}\<close> under status
  200: it has the stated shape, with a string under \<open>browserUrl\<close>, and the call throws.
\<close>

theorem getBrowserUrl_empty_endpoint_counterexample:
  "fetch empty_url_world (start_url (Some (js ''s1'')) (Some (js ''k1''))) =
     Inr \<lparr>status = 200,
          body_json = Inr (JObj [(js ''code'', JNum 200),
                                 (js ''data'', JObj [(js ''browserUrl'', JStr [])])])\<rparr> \<and>
   snd (getBrowserUrl empty_url_world (Some (js ''s1'')) (Some (js ''k1'')) initial_state) =
     Inl (ErrorObj (js ''Failed to get browserUrl. Response: '' @
                    JSON_stringify empty_url_world empty_url_payload))"
  by code_simp

section \<open>Provisioning round-trips across calls\<close>

text \<open>
  C8.  From a state with no session, a call of any tool (any name other than the one the
  handler exempts from session acquisition, so each of the seven declared names) makes
  exactly one request to the provisioning endpoint.  Once that call has left a session
  in the slot, no later run of calls makes another request, and the session stays; a
  later call whose title read on the held page returns starts with that read and makes
  no provisioning call after it.
\<close>

theorem one_provisioning_round_trip:
  assumes "defaultBrowserSession s = None"
    and "name \<noteq> js ''cloudbrowser_create_session''"
    and "handleToolCall w name args s = (s1, result)"
  shows "provisioning_calls (trace s1) = provisioning_calls (trace s) + 1 \<and>
         (\<forall>t \<in> set TOOLS. js (tool_name t) \<noteq> js ''cloudbrowser_create_session'') \<and>
         (\<forall>held cs. defaultBrowserSession s1 = Some held \<longrightarrow>
            provisioning_calls (trace (run_calls cs s1)) = provisioning_calls (trace s) + 1 \<and>
            defaultBrowserSession (run_calls cs s1) = Some held) \<and>
         (\<forall>held p w' name' args'.
            defaultBrowserSession s1 = Some held \<longrightarrow> page held = Some p \<longrightarrow>
            page_title w' p = Inr () \<longrightarrow> name' \<noteq> js ''cloudbrowser_create_session'' \<longrightarrow>
            (\<exists>evs. trace (fst (handleToolCall w' name' args' s1)) = trace s1 @ EvTitle p # evs \<and>
                   (\<forall>ev \<in> set evs. \<not> is_provisioning ev \<and> \<not> is_probe ev)))"
proof -
  have first: "provisioning_calls (trace s1) = provisioning_calls (trace s) + 1"
    using fresh_call [OF assms] by simp
  have names: "\<forall>t \<in> set TOOLS. js (tool_name t) \<noteq> js ''cloudbrowser_create_session''"
    by (simp add: TOOLS_def js_def)
  have later: "\<forall>held cs. defaultBrowserSession s1 = Some held \<longrightarrow>
            provisioning_calls (trace (run_calls cs s1)) = provisioning_calls (trace s) + 1 \<and>
            defaultBrowserSession (run_calls cs s1) = Some held"
    using run_calls_held [of s1] first by simp
  have probe_only: "\<forall>held p w' name' args'.
            defaultBrowserSession s1 = Some held \<longrightarrow> page held = Some p \<longrightarrow>
            page_title w' p = Inr () \<longrightarrow> name' \<noteq> js ''cloudbrowser_create_session'' \<longrightarrow>
            (\<exists>evs. trace (fst (handleToolCall w' name' args' s1)) = trace s1 @ EvTitle p # evs \<and>
                   (\<forall>ev \<in> set evs. \<not> is_provisioning ev \<and> \<not> is_probe ev))"
    using held_call_trace [of s1] unfolding tool_event_def by blast
  from first names later probe_only show ?thesis by blast
qed

theorem one_provisioning_round_trip_witness:
  "defaultBrowserSession initial_state = None \<and>
   js ''cloudbrowser_navigate'' \<noteq> js ''cloudbrowser_create_session'' \<and>
   handleToolCall live_world (js ''cloudbrowser_navigate'') navigate_args initial_state =
     (provisioned_state, text_result (js ''Navigated to http://a.test/'') False) \<and>
   provisioning_calls (trace provisioned_state) = 1 \<and>
   defaultBrowserSession provisioned_state = Some held_session \<and>
   page held_session = Some 3 \<and> page_title live_world 3 = Inr () \<and>
   provisioning_calls
     (trace (run_calls [(live_world, js ''cloudbrowser_navigate'', navigate_args),
                        (live_world, js ''cloudbrowser_get_text'', JObj [])]
               provisioned_state)) = 1 \<and>
   (\<exists>evs. trace (fst (handleToolCall live_world (js ''cloudbrowser_get_text'') (JObj [])
                        provisioned_state)) = trace provisioned_state @ EvTitle 3 # evs \<and>
          (\<forall>ev \<in> set evs. \<not> is_provisioning ev \<and> \<not> is_probe ev))"
proof -
  have none: "defaultBrowserSession initial_state = None"
    by (simp add: initial_state_def)
  have name: "js ''cloudbrowser_navigate'' \<noteq> js ''cloudbrowser_create_session''"
    by (simp add: js_def)
  have name': "js ''cloudbrowser_get_text'' \<noteq> js ''cloudbrowser_create_session''"
    by (simp add: js_def)
  have slot: "defaultBrowserSession provisioned_state = Some held_session"
    by (simp add: provisioned_state_def)
  have pg: "page held_session = Some 3"
    by (simp add: held_session_def)
  have title: "page_title live_world 3 = Inr ()"
    by (simp add: live_world_def)
  have zero: "provisioning_calls (trace initial_state) = 0"
    by (simp add: initial_state_def provisioning_calls_def)
  note inst = one_provisioning_round_trip [OF none name live_navigate_run]
  from inst zero have one: "provisioning_calls (trace provisioned_state) = 1"
    by simp
  from inst slot have
    "\<forall>cs. provisioning_calls (trace (run_calls cs provisioned_state)) =
            provisioning_calls (trace initial_state) + 1"
    by blast
  with zero have run:
    "provisioning_calls
       (trace (run_calls [(live_world, js ''cloudbrowser_navigate'', navigate_args),
                          (live_world, js ''cloudbrowser_get_text'', JObj [])]
                 provisioned_state)) = 1"
    by (simp del: run_calls.simps)
  from inst slot pg title name' have
    "\<exists>evs. trace (fst (handleToolCall live_world (js ''cloudbrowser_get_text'') (JObj [])
                        provisioned_state)) = trace provisioned_state @ EvTitle 3 # evs \<and>
          (\<forall>ev \<in> set evs. \<not> is_provisioning ev \<and> \<not> is_probe ev)"
    by blast
  with none name live_navigate_run one slot pg title run show ?thesis
    by blast
qed

section \<open>Unknown tool names\<close>

text \<open>
  C9, as the code has it.  For every name that is neither one of the seven tools nor
  \<open>cloudbrowser_create_session\<close>, the handler acquires the session before it reaches the
  default branch: when acquisition succeeds the result is the error envelope
  \<open>Unknown tool: name\<close>, and that envelope is returned only then; when
  acquisition throws, the envelope reports that failure instead; and on a state with no
  session the call makes one request to the provisioning endpoint.  The name
  \<open>cloudbrowser_create_session\<close> is exempt from session acquisition: it gets the
  unknown-tool envelope with no call made and the state unchanged.
\<close>

theorem unknown_tool_after_session_acquisition:
  assumes "name \<notin> set (map (\<lambda>t. js (tool_name t)) TOOLS)"
    and "name \<noteq> js ''cloudbrowser_create_session''"
  shows "(\<forall>s1 session. ensureBrowserSession w s = (s1, Inr session) \<longrightarrow>
            handleToolCall w name args s =
              (s1, text_result (js ''Unknown tool: '' @ name) True)) \<and>
         (\<forall>s1 e. ensureBrowserSession w s = (s1, Inl e) \<longrightarrow>
            handleToolCall w name args s =
              (s1\<lparr>trace := trace s1 @ [EvConsoleError (failed_to_handle e) None]\<rparr>,
               text_result (failed_to_handle e) True)) \<and>
         (snd (handleToolCall w name args s) = text_result (js ''Unknown tool: '' @ name) True \<longrightarrow>
            (\<exists>s1 session. ensureBrowserSession w s = (s1, Inr session))) \<and>
         (defaultBrowserSession s = None \<longrightarrow>
            provisioning_calls (trace (fst (handleToolCall w name args s))) =
              provisioning_calls (trace s) + 1) \<and>
         handleToolCall w (js ''cloudbrowser_create_session'') args s =
           (s, text_result (js ''Unknown tool: '' @ js ''cloudbrowser_create_session'') True)"
proof -
  from assms(1) have d: "dispatch w name session args st =
      (st, Inr (text_result (js ''Unknown tool: '' @ name) True))" for session st
    by (simp add: dispatch_def ret_def TOOLS_def)
  have ok: "\<forall>s1 session. ensureBrowserSession w s = (s1, Inr session) \<longrightarrow>
            handleToolCall w name args s =
              (s1, text_result (js ''Unknown tool: '' @ name) True)"
    using assms(2) by (simp add: handleToolCall_def handleToolCall_try_eq d)
  have err: "\<forall>s1 e. ensureBrowserSession w s = (s1, Inl e) \<longrightarrow>
            handleToolCall w name args s =
              (s1\<lparr>trace := trace s1 @ [EvConsoleError (failed_to_handle e) None]\<rparr>,
               text_result (failed_to_handle e) True)"
    using assms(2) by (simp add: handleToolCall_def handleToolCall_try_eq)
  have differ: "text_result (failed_to_handle e) True \<noteq>
                text_result (js ''Unknown tool: '' @ name) True" for e
    by (simp add: text_result_def failed_to_handle_def js_def)
  have only: "snd (handleToolCall w name args s) =
                text_result (js ''Unknown tool: '' @ name) True \<longrightarrow>
            (\<exists>s1 session. ensureBrowserSession w s = (s1, Inr session))"
  proof
    assume u: "snd (handleToolCall w name args s) = text_result (js ''Unknown tool: '' @ name) True"
    obtain s1 r1 where e: "ensureBrowserSession w s = (s1, r1)"
      by (cases "ensureBrowserSession w s")
    show "\<exists>s1 session. ensureBrowserSession w s = (s1, Inr session)"
    proof (cases r1)
      case (Inl e1)
      with e err u differ [of e1] show ?thesis by simp
    next
      case (Inr session)
      with e show ?thesis by blast
    qed
  qed
  have count: "defaultBrowserSession s = None \<longrightarrow>
            provisioning_calls (trace (fst (handleToolCall w name args s))) =
              provisioning_calls (trace s) + 1"
    using fresh_call [OF _ assms(2), of s w args] by (cases "handleToolCall w name args s") simp
  have exempt: "handleToolCall w (js ''cloudbrowser_create_session'') args s =
           (s, text_result (js ''Unknown tool: '' @ js ''cloudbrowser_create_session'') True)"
    by (simp add: handleToolCall_def handleToolCall_try_eq dispatch_create_session)
  from ok err only count exempt show ?thesis by blast
qed

theorem unknown_tool_after_session_acquisition_witness:
  "js ''no_such_tool'' \<notin> set (map (\<lambda>t. js (tool_name t)) TOOLS) \<and>
   js ''no_such_tool'' \<noteq> js ''cloudbrowser_create_session'' \<and>
   snd (ensureBrowserSession live_world initial_state) = Inr held_session \<and>
   snd (handleToolCall live_world (js ''no_such_tool'') (JObj []) initial_state) =
     text_result (js ''Unknown tool: '' @ js ''no_such_tool'') True \<and>
   snd (ensureBrowserSession unreachable_world initial_state) =
     Inl (ErrorObj (js ''fetch failed'')) \<and>
   snd (handleToolCall unreachable_world (js ''no_such_tool'') (JObj []) initial_state) =
     text_result (failed_to_handle (ErrorObj (js ''fetch failed''))) True \<and>
   defaultBrowserSession initial_state = None \<and>
   provisioning_calls
     (trace (fst (handleToolCall unreachable_world (js ''no_such_tool'') (JObj [])
                    initial_state))) = 1"
proof -
  have unknown: "js ''no_such_tool'' \<notin> set (map (\<lambda>t. js (tool_name t)) TOOLS)"
    by (simp add: TOOLS_def js_def)
  have other: "js ''no_such_tool'' \<noteq> js ''cloudbrowser_create_session''"
    by (simp add: js_def)
  note inst = unknown_tool_after_session_acquisition [OF unknown other]
  have live': "snd (ensureBrowserSession live_world initial_state) = Inr held_session"
    by code_simp
  then obtain s1 where live: "ensureBrowserSession live_world initial_state = (s1, Inr held_session)"
    by (cases "ensureBrowserSession live_world initial_state") auto
  have dead': "snd (ensureBrowserSession unreachable_world initial_state) =
      Inl (ErrorObj (js ''fetch failed''))"
    by code_simp
  then obtain s2 where dead: "ensureBrowserSession unreachable_world initial_state =
      (s2, Inl (ErrorObj (js ''fetch failed'')))"
    by (cases "ensureBrowserSession unreachable_world initial_state") auto
  have none: "defaultBrowserSession initial_state = None"
    by (simp add: initial_state_def)
  have zero: "provisioning_calls (trace initial_state) = 0"
    by (simp add: initial_state_def provisioning_calls_def)
  from inst [of live_world initial_state "JObj []"] live have
    a: "snd (handleToolCall live_world (js ''no_such_tool'') (JObj []) initial_state) =
          text_result (js ''Unknown tool: '' @ js ''no_such_tool'') True"
    by simp
  from inst [of unreachable_world initial_state "JObj []"] dead have
    b: "snd (handleToolCall unreachable_world (js ''no_such_tool'') (JObj []) initial_state) =
          text_result (failed_to_handle (ErrorObj (js ''fetch failed''))) True"
    by simp
  from inst [of unreachable_world initial_state "JObj []"] none zero have
    c: "provisioning_calls
         (trace (fst (handleToolCall unreachable_world (js ''no_such_tool'') (JObj [])
                        initial_state))) = 1"
    by simp
  from unknown other live' dead' a b c none show ?thesis
    by blast
qed

text \<open>
  C9 as stated fails at the name \<open>cloudbrowser_create_session\<close>, which is not one of the
  seven tools: on a fresh state, with the provisioning endpoint unreachable (so that
  session acquisition would throw), the call returns the unknown-tool envelope and makes
  no request at all.
\<close>

theorem unknown_tool_create_session_counterexample:
  "js ''cloudbrowser_create_session'' \<notin> set (map (\<lambda>t. js (tool_name t)) TOOLS) \<and>
   snd (ensureBrowserSession unreachable_world initial_state) =
     Inl (ErrorObj (js ''fetch failed'')) \<and>
   handleToolCall unreachable_world (js ''cloudbrowser_create_session'') (JObj []) initial_state =
     (initial_state,
      text_result (js ''Unknown tool: cloudbrowser_create_session'') True) \<and>
   provisioning_calls
     (trace (fst (handleToolCall unreachable_world (js ''cloudbrowser_create_session'')
                    (JObj []) initial_state))) = 0"
  by code_simp

section \<open>Reading a resource by URI\<close>

text \<open>
  C10, as the code has it.  For every string \<open>name\<close>, reading
  \<open>screenshot://\<close> followed by \<open>name\<close> looks up the first piece of \<open>name\<close> split at
  \<open>://\<close>: the whole name when it holds no \<open>://\<close>, otherwise the part before its
  first \<open>://\<close>.  The read returns the blob stored under that key and throws
  \<open>Resource not found\<close> when nothing is stored under it.  So a screenshot stored
  under a name free of \<open>://\<close> is read back; one stored under a name that holds
  \<open>://\<close> is not: the read throws when nothing is stored under the part before the
  first \<open>://\<close>, and otherwise returns what is stored there.
\<close>

theorem read_resource_first_segment:
  "read_resource s (js ''screenshot://'' @ name) =
     (case Map_get same_value_zero (screenshots s) (JStr (hd (split (js ''://'') name))) of
        Some screenshot \<Rightarrow>
          if screenshot \<noteq> []
          then Inr [\<lparr>contents_uri = js ''screenshot://'' @ name,
                     contents_mimeType = js ''image/png'', blob = screenshot\<rparr>]
          else Inl (resource_not_found (js ''screenshot://'' @ name))
      | None \<Rightarrow> Inl (resource_not_found (js ''screenshot://'' @ name))) \<and>
   (\<not> str_includes name (js ''://'') \<longrightarrow> hd (split (js ''://'') name) = name) \<and>
   (str_includes name (js ''://'') \<longrightarrow>
      (\<exists>rest. name = hd (split (js ''://'') name) @ js ''://'' @ rest \<and>
         (\<forall>pre' rest'. name = pre' @ js ''://'' @ rest' \<longrightarrow>
            length (hd (split (js ''://'') name)) \<le> length pre'))) \<and>
   (\<not> str_includes name (js ''://'') \<longrightarrow> screenshot \<noteq> [] \<longrightarrow>
      read_resource
        (s\<lparr>screenshots := Map_set same_value_zero (screenshots s) (JStr name) screenshot\<rparr>)
        (js ''screenshot://'' @ name) =
        Inr [\<lparr>contents_uri = js ''screenshot://'' @ name,
              contents_mimeType = js ''image/png'', blob = screenshot\<rparr>]) \<and>
   (str_includes name (js ''://'') \<longrightarrow>
      Map_get same_value_zero (screenshots s) (JStr (hd (split (js ''://'') name))) = None \<longrightarrow>
      read_resource
        (s\<lparr>screenshots := Map_set same_value_zero (screenshots s) (JStr name) screenshot\<rparr>)
        (js ''screenshot://'' @ name) =
        Inl (resource_not_found (js ''screenshot://'' @ name)))"
proof -
  have stored_free: "\<not> str_includes name (js ''://'') \<longrightarrow> screenshot \<noteq> [] \<longrightarrow>
      read_resource
        (s\<lparr>screenshots := Map_set same_value_zero (screenshots s) (JStr name) screenshot\<rparr>)
        (js ''screenshot://'' @ name) =
        Inr [\<lparr>contents_uri = js ''screenshot://'' @ name,
              contents_mimeType = js ''image/png'', blob = screenshot\<rparr>]"
    by (simp add: read_resource_eq first_segment_free Map_get_Map_set_JStr)
  have stored_other: "str_includes name (js ''://'') \<longrightarrow>
      Map_get same_value_zero (screenshots s) (JStr (hd (split (js ''://'') name))) = None \<longrightarrow>
      read_resource
        (s\<lparr>screenshots := Map_set same_value_zero (screenshots s) (JStr name) screenshot\<rparr>)
        (js ''screenshot://'' @ name) =
        Inl (resource_not_found (js ''screenshot://'' @ name))"
  proof (intro impI)
    assume inc: "str_includes name (js ''://'')"
      and none: "Map_get same_value_zero (screenshots s) (JStr (hd (split (js ''://'') name))) = None"
    from first_segment_first [OF inc] obtain rest where
      "name = hd (split (js ''://'') name) @ js ''://'' @ rest" by blast
    then have "length name = length (hd (split (js ''://'') name)) + length (js ''://'' @ rest)"
      by (metis length_append)
    then have "name \<noteq> hd (split (js ''://'') name)"
      by (auto simp: js_def)
    with none show "read_resource
        (s\<lparr>screenshots := Map_set same_value_zero (screenshots s) (JStr name) screenshot\<rparr>)
        (js ''screenshot://'' @ name) =
        Inl (resource_not_found (js ''screenshot://'' @ name))"
      by (simp add: read_resource_eq Map_get_Map_set_JStr)
  qed
  from read_resource_eq [of s name] first_segment_free [of name] first_segment_first [of name]
    stored_free stored_other
  show ?thesis by blast
qed

theorem read_resource_first_segment_witness:
  "\<not> str_includes (js ''a'') (js ''://'') \<and>
   hd (split (js ''://'') (js ''a'')) = js ''a'' \<and>
   read_resource
     (initial_state\<lparr>screenshots := Map_set same_value_zero (screenshots initial_state)
                                      (JStr (js ''a'')) (js ''iVBORw0KGgo='')\<rparr>)
     (js ''screenshot://'' @ js ''a'') =
     Inr [\<lparr>contents_uri = js ''screenshot://'' @ js ''a'',
           contents_mimeType = js ''image/png'', blob = js ''iVBORw0KGgo=''\<rparr>] \<and>
   str_includes (js ''a://b'') (js ''://'') \<and>
   hd (split (js ''://'') (js ''a://b'')) = js ''a'' \<and>
   Map_get same_value_zero (screenshots initial_state)
     (JStr (hd (split (js ''://'') (js ''a://b'')))) = None \<and>
   read_resource
     (initial_state\<lparr>screenshots := Map_set same_value_zero (screenshots initial_state)
                                      (JStr (js ''a://b'')) (js ''iVBORw0KGgo='')\<rparr>)
     (js ''screenshot://'' @ js ''a://b'') =
     Inl (resource_not_found (js ''screenshot://'' @ js ''a://b''))"
proof -
  have free: "\<not> str_includes (js ''a'') (js ''://'')"
    by (simp add: js_def)
  have inc: "str_includes (js ''a://b'') (js ''://'')"
    by (simp add: js_def)
  have blob: "js ''iVBORw0KGgo='' \<noteq> []"
    by (simp add: js_def)
  have seg: "hd (split (js ''://'') (js ''a://b'')) = js ''a''"
    by code_simp
  have none: "Map_get same_value_zero (screenshots initial_state)
     (JStr (hd (split (js ''://'') (js ''a://b'')))) = None"
    by (simp add: initial_state_def)
  note a = read_resource_first_segment [of initial_state "js ''a''" "js ''iVBORw0KGgo=''"]
  note b = read_resource_first_segment [of initial_state "js ''a://b''" "js ''iVBORw0KGgo=''"]
  from a free have a1: "hd (split (js ''://'') (js ''a'')) = js ''a''"
    by blast
  from a free blob have a2: "read_resource
     (initial_state\<lparr>screenshots := Map_set same_value_zero (screenshots initial_state)
                                      (JStr (js ''a'')) (js ''iVBORw0KGgo='')\<rparr>)
     (js ''screenshot://'' @ js ''a'') =
     Inr [\<lparr>contents_uri = js ''screenshot://'' @ js ''a'',
           contents_mimeType = js ''image/png'', blob = js ''iVBORw0KGgo=''\<rparr>]"
    by blast
  from b inc none have b1: "read_resource
     (initial_state\<lparr>screenshots := Map_set same_value_zero (screenshots initial_state)
                                      (JStr (js ''a://b'')) (js ''iVBORw0KGgo='')\<rparr>)
     (js ''screenshot://'' @ js ''a://b'') =
     Inl (resource_not_found (js ''screenshot://'' @ js ''a://b''))"
    by blast
  from free inc seg none a1 a2 b1 show ?thesis
    by blast
qed

text \<open>
  C10 as stated fails when a screenshot is also stored under the part before the first
  \<open>://\<close>: after screenshots named \<open>a\<close> and \<open>a://b\<close>, reading
  \<open>screenshot://a://b\<close> does not throw; it returns the blob stored under \<open>a\<close>.
\<close>

theorem read_resource_prefix_stored_counterexample:
  "screenshots two_screenshots =
     [(JStr (js ''a''), js ''iVBORw0KGgo=''), (JStr (js ''a://b''), js ''R0lGODlh'')] \<and>
   read_resource two_screenshots (js ''screenshot://'' @ js ''a://b'') =
     Inr [\<lparr>contents_uri = js ''screenshot://a://b'', contents_mimeType = js ''image/png'',
           blob = js ''iVBORw0KGgo=''\<rparr>]"
  by code_simp

end
